theory Spec2Isabelle
  imports Main "HOL-Library.Char_ord" "HOL-Library.List_Lexorder" "HOL-Library.AList"
begin

text \<open>
  A model of the archiver's manifest store (the table \<open>files\<close>, written by the scanner's
  \<open>saveFileInfo\<close> and read and updated through \<open>db.DB\<close>) and of its full-text indexer
  (\<open>db.BleveIndexer\<close>), with the properties of their operations.

  The program is Go code over two libraries. SQLite and \<open>database/sql\<close> are modelled by
  what the statements of the program do to the rows of the table and by how a row scans
  into Go values; Bleve is modelled by the documents an open index stores under their ids.
  Functions take the state they work on and return the new one; an operation that can
  return an error has a result of type \<open>error + _\<close>.
\<close>

section \<open>The manifest: the SQLite table \<open>files\<close>\<close>

text \<open>
  \<open>time.Time\<close> values are instants; the model keeps them as integers (an instant on the
  clock's scale). Go's \<open>int64\<close> values are modelled as \<open>int\<close>; the only places where the
  64-bit range matters (the row id generator and \<open>SUM\<close>) write the range check out.
\<close>

type_synonym time = int

datatype error =
    SQLITE_FULL
  | ScanNULL nat
  | IntegerOverflow
  | LikePatternTooComplex
  | QueryFailed
  | RowsErr
  | NilFile
  | ErrorEmptyID
  | BatchFailed

text \<open>\<open>scan.FileInfo\<close>: what the scanner hands to \<open>saveFileInfo\<close>.\<close>

record FileInfo =
  info_Path :: string
  info_RelativePath :: string
  info_Size :: int
  info_ModTime :: time
  info_IsDir :: bool
  info_ContentType :: string
  info_SHA256 :: string

text \<open>
  One row of the table created by \<open>initDB\<close>. The columns declared without \<open>NOT NULL\<close>
  (\<open>content_type\<close>, \<open>sha256\<close>, \<open>processed\<close>, \<open>uploaded_url\<close>, \<open>upload_time\<close>, \<open>summary\<close>)
  are nullable: \<open>None\<close> is SQL \<open>NULL\<close>.
\<close>

record files_row =
  r_id :: int
  r_path :: string
  r_relative_path :: string
  r_size :: int
  r_mod_time :: time
  r_is_dir :: bool
  r_content_type :: "string option"
  r_sha256 :: "string option"
  r_processed :: "bool option"
  r_uploaded_url :: "string option"
  r_upload_time :: "time option"
  r_summary :: "string option"

text \<open>
  The table: its rows, and the \<open>sqlite_sequence\<close> entry that \<open>AUTOINCREMENT\<close> keeps for
  it (the largest row id ever assigned; 0 before the first insert).
\<close>

record files_table =
  rows :: "files_row list"
  sqlite_sequence :: int

text \<open>\<open>db.FileStatus\<close>: what \<open>rows.Scan\<close> fills in.\<close>

record FileStatus =
  ID :: int
  Path :: string
  RelativePath :: string
  Size :: int
  ModTime :: time
  IsDir :: bool
  ContentType :: string
  SHA256 :: string
  Processed :: bool
  UploadedURL :: string
  UploadTime :: "time option"
  Summary :: string

definition empty_table :: files_table where
  "empty_table = \<lparr>rows = [], sqlite_sequence = 0\<rparr>"

text \<open>
  \<open>initDB\<close> runs \<open>CREATE TABLE IF NOT EXISTS files (...)\<close>: a store without the table
  (\<open>None\<close>) gets an empty one, an existing table is left as it is.
\<close>

definition initDB :: "files_table option \<Rightarrow> files_table" where
  "initDB st = (case st of None \<Rightarrow> empty_table | Some t \<Rightarrow> t)"

definition max_rowid :: int where
  "max_rowid = 9223372036854775807"

text \<open>
  \<open>id INTEGER PRIMARY KEY AUTOINCREMENT\<close>: the id of a new row is one more than the
  largest id that has ever been in the table; when that is the largest 64-bit integer the
  insert fails with \<open>SQLITE_FULL\<close>.
\<close>

definition largest_rowid :: "files_table \<Rightarrow> int" where
  "largest_rowid t = fold max (map r_id (rows t)) (sqlite_sequence t)"

definition next_rowid :: "files_table \<Rightarrow> error + int" where
  "next_rowid t =
     (if largest_rowid t \<ge> max_rowid then Inl SQLITE_FULL else Inr (largest_rowid t + 1))"

text \<open>
  The row that
  \<^verbatim>\<open>INSERT OR REPLACE INTO files (path, relative_path, size, mod_time, is_dir, content_type, sha256)\<close>
  writes: the seven listed columns from the statement's arguments, the id from
  \<open>AUTOINCREMENT\<close>, \<open>processed\<close> from its \<open>DEFAULT FALSE\<close>, and \<open>NULL\<close> in the columns that
  have no default.
\<close>

definition inserted_row :: "int \<Rightarrow> FileInfo \<Rightarrow> files_row" where
  "inserted_row n info =
     \<lparr>r_id = n, r_path = info_Path info, r_relative_path = info_RelativePath info,
      r_size = info_Size info, r_mod_time = info_ModTime info, r_is_dir = info_IsDir info,
      r_content_type = Some (info_ContentType info), r_sha256 = Some (info_SHA256 info),
      r_processed = Some False, r_uploaded_url = None, r_upload_time = None,
      r_summary = None\<rparr>"

text \<open>
  \<open>saveFileInfo\<close>. \<open>OR REPLACE\<close> resolves the conflict on \<open>UNIQUE(path)\<close> by deleting the
  row that holds the path and inserting the new row.
\<close>

definition saveFileInfo :: "FileInfo \<Rightarrow> files_table \<Rightarrow> error + files_table" where
  "saveFileInfo info t =
     (case next_rowid t of
        Inl e \<Rightarrow> Inl e
      | Inr n \<Rightarrow>
          Inr \<lparr>rows = filter (\<lambda>r. r_path r \<noteq> info_Path info) (rows t) @ [inserted_row n info],
               sqlite_sequence = n\<rparr>)"

text \<open>
  \<open>UpdateFileStatus\<close>: one \<open>UPDATE ... WHERE id = ?\<close>; the statement's result (the number
  of rows it changed) is dropped and only the error of \<open>Exec\<close> is returned. \<open>now\<close> is the
  reading of \<open>time.Now()\<close>.
\<close>

definition UpdateFileStatus ::
  "time \<Rightarrow> int \<Rightarrow> bool \<Rightarrow> string \<Rightarrow> string \<Rightarrow> files_table \<Rightarrow> error + files_table" where
  "UpdateFileStatus now fid processed uploadedURL summary t =
     Inr (t\<lparr>rows :=
       map (\<lambda>r. if r_id r = fid
                then r\<lparr>r_processed := Some processed, r_uploaded_url := Some uploadedURL,
                       r_upload_time := Some now, r_summary := Some summary\<rparr>
                else r) (rows t)\<rparr>)"

subsection \<open>Reading rows back\<close>

text \<open>
  \<open>rows.Scan\<close> into a \<open>FileStatus\<close>: the destinations of \<open>content_type\<close>, \<open>sha256\<close>,
  \<open>uploaded_url\<close> and \<open>summary\<close> are Go strings and that of \<open>processed\<close> a Go bool, and
  \<open>database/sql\<close> refuses to convert \<open>NULL\<close> to either; \<open>upload_time\<close> goes into a
  \<open>sql.NullTime\<close>, which accepts \<open>NULL\<close>. Columns are converted in order, so the error
  names the first \<open>NULL\<close> column (by its index in the select list).
\<close>

definition scan_row :: "files_row \<Rightarrow> error + FileStatus" where
  "scan_row r =
     (case r_content_type r of None \<Rightarrow> Inl (ScanNULL 6) | Some ct \<Rightarrow>
     (case r_sha256 r of None \<Rightarrow> Inl (ScanNULL 7) | Some sha \<Rightarrow>
     (case r_processed r of None \<Rightarrow> Inl (ScanNULL 8) | Some pr \<Rightarrow>
     (case r_uploaded_url r of None \<Rightarrow> Inl (ScanNULL 9) | Some url \<Rightarrow>
     (case r_summary r of None \<Rightarrow> Inl (ScanNULL 11) | Some su \<Rightarrow>
        Inr \<lparr>ID = r_id r, Path = r_path r, RelativePath = r_relative_path r,
             Size = r_size r, ModTime = r_mod_time r, IsDir = r_is_dir r,
             ContentType = ct, SHA256 = sha, Processed = pr, UploadedURL = url,
             UploadTime = r_upload_time r, Summary = su\<rparr>)))))"

text \<open>The loop \<open>for rows.Next() { Scan; append }\<close>: the first failing scan ends it.\<close>

fun scan_all :: "files_row list \<Rightarrow> error + FileStatus list" where
  "scan_all [] = Inr []"
| "scan_all (r # rs) =
     (case scan_row r of
        Inl e \<Rightarrow> Inl e
      | Inr f \<Rightarrow> (case scan_all rs of Inl e \<Rightarrow> Inl e | Inr fs \<Rightarrow> Inr (f # fs)))"

subsection \<open>\<open>GetStats\<close>\<close>

definition min_int64 :: int where
  "min_int64 = - 9223372036854775808"

definition max_int64 :: int where
  "max_int64 = 9223372036854775807"

text \<open>
  SQL \<open>SUM\<close> over integers: \<open>NULL\<close> when there is no row, an "integer overflow" error when
  the running total leaves the 64-bit range.
\<close>

fun sum_int64 :: "int \<Rightarrow> int list \<Rightarrow> error + int" where
  "sum_int64 acc [] = Inr acc"
| "sum_int64 acc (x # xs) =
     (let s = acc + x
      in if s < min_int64 \<or> max_int64 < s then Inl IntegerOverflow else sum_int64 s xs)"

definition sql_SUM :: "int list \<Rightarrow> error + int option" where
  "sql_SUM xs =
     (if xs = [] then Inr None
      else (case sum_int64 0 xs of Inl e \<Rightarrow> Inl e | Inr s \<Rightarrow> Inr (Some s)))"

text \<open>\<open>Scan(&x)\<close> with \<open>x\<close> an \<open>int64\<close>: \<open>NULL\<close> cannot be converted.\<close>

definition scan_int64 :: "int option \<Rightarrow> error + int" where
  "scan_int64 v = (case v of None \<Rightarrow> Inl (ScanNULL 0) | Some n \<Rightarrow> Inr n)"

definition GetStats :: "files_table \<Rightarrow> error + (string \<rightharpoonup> int)" where
  "GetStats t =
     (let totalFiles = int (length (filter (\<lambda>r. \<not> r_is_dir r) (rows t)));
          totalDirs = int (length (filter (\<lambda>r. r_is_dir r) (rows t)));
          processedFiles =
            int (length (filter (\<lambda>r. r_processed r = Some True \<and> \<not> r_is_dir r) (rows t)))
      in case sql_SUM (map r_size (filter (\<lambda>r. \<not> r_is_dir r) (rows t))) of
           Inl e \<Rightarrow> Inl e
         | Inr v \<Rightarrow>
             (case scan_int64 v of
                Inl e \<Rightarrow> Inl e
              | Inr totalSize \<Rightarrow>
                  Inr [''totalFiles'' \<mapsto> totalFiles, ''totalDirs'' \<mapsto> totalDirs,
                       ''processedFiles'' \<mapsto> processedFiles, ''totalSize'' \<mapsto> totalSize]))"

section \<open>The index engine\<close>

subsection \<open>What the Go library gives: paths, lower-casing, decimal numbers\<close>

text \<open>\<open>os.IsPathSeparator\<close> on the platform the tool is built for (\<open>/\<close> only).\<close>

definition IsPathSeparator :: "char \<Rightarrow> bool" where
  "IsPathSeparator c = (c = CHR ''/'')"

text \<open>The part of a path after its last separator (the whole path when it has none).\<close>

definition last_element :: "string \<Rightarrow> string" where
  "last_element p = rev (takeWhile (\<lambda>c. \<not> IsPathSeparator c) (rev p))"

text \<open>
  \<open>filepath.Base\<close>: \<open>"."\<close> for the empty path; otherwise trailing separators are
  stripped and the last element is returned, \<open>"/"\<close> when nothing but separators was there.
\<close>

definition Base :: "string \<Rightarrow> string" where
  "Base p =
     (if p = [] then ''.''
      else (let q = rev (dropWhile IsPathSeparator (rev p));
                e = last_element q
            in if e = [] then ''/'' else e))"

text \<open>
  \<open>filepath.Ext\<close>: the loop walks back from the end of the path until a separator; at
  the first dot it returns the path from that dot on. \<open>ext_scan\<close> takes the reversed
  path and the characters already passed.
\<close>

fun ext_scan :: "string \<Rightarrow> string \<Rightarrow> string" where
  "ext_scan [] suf = []"
| "ext_scan (c # cs) suf =
     (if IsPathSeparator c then []
      else if c = CHR ''.'' then c # suf
      else ext_scan cs (c # suf))"

definition Ext :: "string \<Rightarrow> string" where
  "Ext p = ext_scan (rev p) []"

text \<open>
  \<open>strings.ToLower\<close>: a string of ASCII bytes only is lower-cased byte by byte; any other
  string goes through \<open>unicode.ToLower\<close> rune by rune, which rests on the Unicode tables of
  the Go library. Those tables are the parameter \<open>ul\<close> (the whole rune-wise mapping of a
  string).
\<close>

definition is_ascii :: "char \<Rightarrow> bool" where
  "is_ascii c = ((of_char c :: nat) < 128)"

definition ascii_lower :: "char \<Rightarrow> char" where
  "ascii_lower c =
     (case map_of (zip ''ABCDEFGHIJKLMNOPQRSTUVWXYZ'' ''abcdefghijklmnopqrstuvwxyz'') c of
        None \<Rightarrow> c
      | Some l \<Rightarrow> l)"

definition ToLower :: "(string \<Rightarrow> string) \<Rightarrow> string \<Rightarrow> string" where
  "ToLower ul s = (if list_all is_ascii s then map ascii_lower s else ul s)"

text \<open>\<open>fmt.Sprintf("%d", n)\<close>: the decimal digits, after a minus sign for a negative number.\<close>

definition digit_char :: "nat \<Rightarrow> char" where
  "digit_char d = ''0123456789'' ! d"

fun dec_nat :: "nat \<Rightarrow> string" where
  "dec_nat n = (if n < 10 then [digit_char n] else dec_nat (n div 10) @ [digit_char (n mod 10)])"

declare dec_nat.simps [simp del]

definition FormatInt :: "int \<Rightarrow> string" where
  "FormatInt i = (if i < 0 then CHR ''-'' # dec_nat (nat (- i)) else dec_nat (nat i))"

subsection \<open>Documents and the index\<close>

record IndexConfig =
  IndexDir :: string
  IndexSummaries :: bool

text \<open>\<open>db.FileIndex\<close>, the indexed document.\<close>

record FileIndex =
  doc_ID :: string
  doc_Path :: string
  doc_RelativePath :: string
  doc_Name :: string
  doc_Extension :: string
  doc_Size :: int
  doc_ModTime :: time
  doc_IsDir :: bool
  doc_ContentType :: string
  doc_Summary :: string
  doc_UploadedURL :: string
  doc_UpdatedAt :: time

text \<open>
  The state of an open Bleve index, as far as the program observes it: the stored
  document under each document id. \<open>Index\<close> writes or replaces the document of an id,
  \<open>Delete\<close> removes it and is a no-op for an id that is not indexed; both refuse the
  empty id. \<open>DocCount\<close> counts the documents.
\<close>

type_synonym index = "string \<rightharpoonup> FileIndex"

definition index_Index :: "string \<Rightarrow> FileIndex \<Rightarrow> index \<Rightarrow> error + index" where
  "index_Index k doc idx = (if k = [] then Inl ErrorEmptyID else Inr (idx(k \<mapsto> doc)))"

definition index_Delete :: "string \<Rightarrow> index \<Rightarrow> error + index" where
  "index_Delete k idx = (if k = [] then Inl ErrorEmptyID else Inr (idx(k := None)))"

definition GetDocumentCount :: "index \<Rightarrow> nat" where
  "GetDocumentCount idx = card (dom idx)"

text \<open>
  A batch collects index operations under their document ids (a later operation on an id
  replaces the earlier one); \<open>Size\<close> is the number of ids it holds.
\<close>

type_synonym batch = "(string \<times> FileIndex) list"

definition batch_Index :: "string \<Rightarrow> FileIndex \<Rightarrow> batch \<Rightarrow> error + batch" where
  "batch_Index k doc b = (if k = [] then Inl ErrorEmptyID else Inr (AList.update k doc b))"

definition batch_Size :: "batch \<Rightarrow> nat" where
  "batch_Size b = length b"

text \<open>
  The document built from a file: the same statements stand in \<open>IndexFile\<close> and in the
  loop of \<open>BuildIndex\<close>. \<open>now\<close> is the reading of \<open>time.Now()\<close>.
\<close>

definition file_document ::
  "(string \<Rightarrow> string) \<Rightarrow> IndexConfig \<Rightarrow> time \<Rightarrow> FileStatus \<Rightarrow> FileIndex" where
  "file_document ul cfg now file =
     (let name = Base (Path file);
          extension = ToLower ul (Ext (Path file));
          doc = \<lparr>doc_ID = FormatInt (ID file), doc_Path = Path file,
                 doc_RelativePath = RelativePath file, doc_Name = name,
                 doc_Extension = extension, doc_Size = Size file, doc_ModTime = ModTime file,
                 doc_IsDir = IsDir file, doc_ContentType = ContentType file,
                 doc_Summary = [], doc_UploadedURL = UploadedURL file, doc_UpdatedAt = now\<rparr>
      in if IndexSummaries cfg \<and> Summary file \<noteq> [] then doc\<lparr>doc_Summary := Summary file\<rparr>
         else doc)"

text \<open>\<open>IndexFile\<close>; the argument is a pointer, \<open>None\<close> is \<open>nil\<close>.\<close>

definition IndexFile ::
  "(string \<Rightarrow> string) \<Rightarrow> IndexConfig \<Rightarrow> time \<Rightarrow> FileStatus option \<Rightarrow> index \<Rightarrow> error + index" where
  "IndexFile ul cfg now file idx =
     (case file of
        None \<Rightarrow> Inl NilFile
      | Some f \<Rightarrow> (let doc = file_document ul cfg now f in index_Index (doc_ID doc) doc idx))"

definition RemoveFile :: "int \<Rightarrow> index \<Rightarrow> error + index" where
  "RemoveFile fileID idx = index_Delete (FormatInt fileID) idx"

subsection \<open>\<open>BuildIndex\<close>\<close>

text \<open>
  What a run of \<open>BuildIndex\<close> can meet outside the program: the query may fail; the row
  cursor may stop with an error after some rows (\<open>rows.Next\<close> returns false and \<open>rows.Err\<close>
  is set); a call of \<open>index.Batch\<close> may fail (calls are numbered from 0). A failed batch
  write leaves the index as it was: Bleve applies a batch as a whole.
\<close>

record build_env =
  query_fails :: bool
  rows_stop :: "nat option"
  batch_fails :: "nat \<Rightarrow> bool"

record build_result =
  br_count :: nat
  br_err :: "error option"
  br_index :: index

definition batchSize :: nat where
  "batchSize = 100"

text \<open>The end of \<open>BuildIndex\<close>: \<open>rows.Err()\<close> is checked after the final batch.\<close>

definition build_finish :: "bool \<Rightarrow> nat \<Rightarrow> index \<Rightarrow> build_result" where
  "build_finish rows_err cnt idx =
     \<lparr>br_count = cnt, br_err = (if rows_err then Some RowsErr else None), br_index = idx\<rparr>"

text \<open>
  The loop over the rows the cursor yields, with the state it carries: the index, the
  current batch, \<open>count\<close>, and the number of \<open>index.Batch\<close> calls made so far. \<open>clk n\<close> is
  the reading of \<open>time.Now()\<close> while the row met at \<open>count = n\<close> is converted.
\<close>

fun build_loop ::
  "(nat \<Rightarrow> bool) \<Rightarrow> bool \<Rightarrow> (string \<Rightarrow> string) \<Rightarrow> IndexConfig \<Rightarrow> (nat \<Rightarrow> time) \<Rightarrow>
   files_row list \<Rightarrow> index \<Rightarrow> batch \<Rightarrow> nat \<Rightarrow> nat \<Rightarrow> build_result" where
  "build_loop bf rows_err ul cfg clk [] idx b cnt nb =
     (if batch_Size b > 0
      then (if bf nb then \<lparr>br_count = cnt, br_err = Some BatchFailed, br_index = idx\<rparr>
            else build_finish rows_err cnt (idx ++ map_of b))
      else build_finish rows_err cnt idx)"
| "build_loop bf rows_err ul cfg clk (r # rs) idx b cnt nb =
     (case scan_row r of
        Inl e \<Rightarrow> \<lparr>br_count = cnt, br_err = Some e, br_index = idx\<rparr>
      | Inr file \<Rightarrow>
          (let doc = file_document ul cfg (clk cnt) file
           in case batch_Index (doc_ID doc) doc b of
                Inl e \<Rightarrow> \<lparr>br_count = cnt, br_err = Some e, br_index = idx\<rparr>
              | Inr b' \<Rightarrow>
                  (if Suc cnt mod batchSize = 0
                   then (if bf nb
                         then \<lparr>br_count = Suc cnt, br_err = Some BatchFailed, br_index = idx\<rparr>
                         else build_loop bf rows_err ul cfg clk rs (idx ++ map_of b') []
                                (Suc cnt) (Suc nb))
                   else build_loop bf rows_err ul cfg clk rs idx b' (Suc cnt) nb)))"

text \<open>The rows of \<open>SELECT ... FROM files ORDER BY id\<close>.\<close>

definition rows_by_id :: "files_table \<Rightarrow> files_row list" where
  "rows_by_id t = sort_key r_id (rows t)"

text \<open>The rows the cursor yields before \<open>rows.Next\<close> returns false.\<close>

definition yielded_rows :: "build_env \<Rightarrow> files_table \<Rightarrow> files_row list" where
  "yielded_rows env t =
     (case rows_stop env of None \<Rightarrow> rows_by_id t | Some k \<Rightarrow> take k (rows_by_id t))"

definition BuildIndex ::
  "build_env \<Rightarrow> (string \<Rightarrow> string) \<Rightarrow> IndexConfig \<Rightarrow> (nat \<Rightarrow> time) \<Rightarrow> files_table \<Rightarrow> index \<Rightarrow>
   build_result" where
  "BuildIndex env ul cfg clk t idx =
     (if query_fails env then \<lparr>br_count = 0, br_err = Some QueryFailed, br_index = idx\<rparr>
      else build_loop (batch_fails env) (rows_stop env \<noteq> None) ul cfg clk (yielded_rows env t)
             idx [] 0 0)"

text \<open>A run that meets no failure outside the program.\<close>

definition healthy :: build_env where
  "healthy = \<lparr>query_fails = False, rows_stop = None, batch_fails = (\<lambda>k. False)\<rparr>"

subsection \<open>Vocabulary for the outcome of a rebuild\<close>

text \<open>
  The documents of a list of files, in order, each under its id; the file met at
  \<open>count = n\<close> is converted at time \<open>clk n\<close>.
\<close>

fun documents ::
  "(string \<Rightarrow> string) \<Rightarrow> IndexConfig \<Rightarrow> (nat \<Rightarrow> time) \<Rightarrow> nat \<Rightarrow> FileStatus list \<Rightarrow>
   (string \<times> FileIndex) list" where
  "documents ul cfg clk n [] = []"
| "documents ul cfg clk n (f # fs) =
     (doc_ID (file_document ul cfg (clk n) f), file_document ul cfg (clk n) f)
       # documents ul cfg clk (Suc n) fs"

text \<open>Writing documents into an index one after the other.\<close>

definition put_all :: "(string \<times> FileIndex) list \<Rightarrow> index \<Rightarrow> index" where
  "put_all ds idx = fold (\<lambda>kd m. m(fst kd \<mapsto> snd kd)) ds idx"

text \<open>The batch that holds the given documents, added in order.\<close>

definition to_batch :: "(string \<times> FileIndex) list \<Rightarrow> batch" where
  "to_batch ds = fold (\<lambda>kd b. AList.update (fst kd) (snd kd) b) ds []"

text \<open>The largest multiple of the batch size that is not above \<open>n\<close>.\<close>

definition boundary :: "nat \<Rightarrow> nat" where
  "boundary n = n - n mod batchSize"

section \<open>The query engine\<close>

record SearchRequest =
  Query :: string
  Limit :: int
  Offset :: int
  SortBy :: string
  SortDesc :: bool
  FieldName :: string

text \<open>The three queries \<open>Search\<close> builds.\<close>

datatype query =
    MatchAllQuery
  | MatchQuery string string
  | QueryStringQuery string

text \<open>
  The head of \<open>Search\<close>: the default limit and the choice of the query.
  \<open>MatchQuery q f\<close> is \<open>bleve.NewMatchQuery(q)\<close> after \<open>SetField(f)\<close>.
\<close>

definition search_limit :: "SearchRequest \<Rightarrow> int" where
  "search_limit request = (if Limit request \<le> 0 then 10 else Limit request)"

definition search_query :: "SearchRequest \<Rightarrow> query" where
  "search_query request =
     (if Query request = [] then MatchAllQuery
      else if FieldName request \<noteq> [] then MatchQuery (Query request) (FieldName request)
      else QueryStringQuery (Query request))"

text \<open>
  The text engine behind the index is a parameter. \<open>index_terms f s\<close> is the list of
  terms under which the value \<open>s\<close> of the string field \<open>f\<close> is indexed, whatever the
  engine does with it (Bleve's dynamic mapping runs the default analyzer on it, unless
  the text parses as a date, which it indexes as a time), and \<open>query_terms f q\<close> is the
  list of terms a match query on field \<open>f\<close> makes of its text \<open>q\<close>, with the analyzer the
  index mapping names for \<open>f\<close>; the two need not be the same analyzer.
  \<open>numeric_terms\<close> and \<open>datetime_terms\<close> give the encoded terms of a number and of a
  time; \<open>query_string_hit q k d\<close> says whether the query-string query \<open>q\<close> selects the
  document \<open>d\<close> stored under the id \<open>k\<close>.
\<close>

record text_engine =
  index_terms :: "string \<Rightarrow> string \<Rightarrow> string list"
  query_terms :: "string \<Rightarrow> string \<Rightarrow> string list"
  numeric_terms :: "int \<Rightarrow> string list"
  datetime_terms :: "time \<Rightarrow> string list"
  query_string_hit :: "string \<Rightarrow> string \<Rightarrow> FileIndex \<Rightarrow> bool"

text \<open>
  The fields of a document. \<open>IndexFile\<close> and \<open>BuildIndex\<close> hand Bleve a \<open>FileIndex\<close>
  struct, which has no tags and names no document type, so Bleve maps it with its
  default, dynamic mapping: every field of the struct becomes a field of the document
  under its Go name, a string field indexed as text, \<open>Size\<close> as a number, \<open>ModTime\<close> and
  \<open>UpdatedAt\<close> as times, and \<open>IsDir\<close> as the one term \<open>T\<close> or \<open>F\<close>.
\<close>

definition struct_fields :: "string list" where
  "struct_fields =
     [''ID'', ''Path'', ''RelativePath'', ''Name'', ''Extension'', ''Size'', ''ModTime'',
      ''IsDir'', ''ContentType'', ''Summary'', ''UploadedURL'', ''UpdatedAt'']"

definition struct_field_terms :: "text_engine \<Rightarrow> FileIndex \<Rightarrow> string \<Rightarrow> string list" where
  "struct_field_terms eng d f =
     (if f = ''ID'' then index_terms eng f (doc_ID d)
      else if f = ''Path'' then index_terms eng f (doc_Path d)
      else if f = ''RelativePath'' then index_terms eng f (doc_RelativePath d)
      else if f = ''Name'' then index_terms eng f (doc_Name d)
      else if f = ''Extension'' then index_terms eng f (doc_Extension d)
      else if f = ''Size'' then numeric_terms eng (doc_Size d)
      else if f = ''ModTime'' then datetime_terms eng (doc_ModTime d)
      else if f = ''IsDir'' then [if doc_IsDir d then ''T'' else ''F'']
      else if f = ''ContentType'' then index_terms eng f (doc_ContentType d)
      else if f = ''Summary'' then index_terms eng f (doc_Summary d)
      else if f = ''UploadedURL'' then index_terms eng f (doc_UploadedURL d)
      else if f = ''UpdatedAt'' then datetime_terms eng (doc_UpdatedAt d)
      else [])"

text \<open>
  The terms of the document stored under the id \<open>k\<close> in the field \<open>f\<close>. Besides the
  fields of the struct, Bleve keeps the id itself as the one term of the field \<open>_id\<close>, and
  the composite field \<open>_all\<close>, which holds the terms of all fields of the struct. A field
  of any other name holds no term.
\<close>

definition field_terms :: "text_engine \<Rightarrow> string \<Rightarrow> FileIndex \<Rightarrow> string \<Rightarrow> string list" where
  "field_terms eng k d f =
     (if f = ''_id'' then [k]
      else if f = ''_all'' then concat (map (struct_field_terms eng d) struct_fields)
      else struct_field_terms eng d f)"

text \<open>Two lists of terms have a term in common.\<close>

definition shares :: "string list \<Rightarrow> string list \<Rightarrow> bool" where
  "shares qs ts = list_ex (\<lambda>t. t \<in> set ts) qs"

text \<open>
  Which documents a query selects. A match query makes terms of its text with the
  analyzer of its field and selects the documents that hold at least one of these terms
  in that field.
\<close>

fun query_hit :: "text_engine \<Rightarrow> query \<Rightarrow> string \<Rightarrow> FileIndex \<Rightarrow> bool" where
  "query_hit eng MatchAllQuery k d = True"
| "query_hit eng (MatchQuery q f) k d = shares (query_terms eng f q) (field_terms eng k d f)"
| "query_hit eng (QueryStringQuery q) k d = query_string_hit eng q k d"

text \<open>
  \<open>is_hit eng request idx k\<close>: the document id \<open>k\<close> is among the hits of the request's
  query on the index (before \<open>Search\<close> ranks the hits and cuts the page
  \<open>Offset .. Offset + Limit\<close> out of them).
\<close>

definition is_hit :: "text_engine \<Rightarrow> SearchRequest \<Rightarrow> index \<Rightarrow> string \<Rightarrow> bool" where
  "is_hit eng request idx k =
     (case idx k of None \<Rightarrow> False | Some d \<Rightarrow> query_hit eng (search_query request) k d)"

section \<open>\<open>GetFilesInDirectory\<close> and SQL \<open>LIKE\<close>\<close>

text \<open>\<open>strings.HasSuffix\<close>.\<close>

definition HasSuffix :: "string \<Rightarrow> string \<Rightarrow> bool" where
  "HasSuffix s suf = (length suf \<le> length s \<and> drop (length s - length suf) s = suf)"

definition directoryPattern :: "string \<Rightarrow> string" where
  "directoryPattern directory =
     (if \<not> HasSuffix directory ''/'' then directory @ ''/'' else directory) @ ''%''"

text \<open>
  SQLite's \<open>LIKE\<close> (no \<open>ESCAPE\<close>, the default case folding) reads both operands as
  C strings of UTF-8 text: the bytes up to the first NUL byte, character by character.
\<close>

definition c_string :: "string \<Rightarrow> string" where
  "c_string s = takeWhile (\<lambda>b. b \<noteq> CHR 0x00) s"

text \<open>
  \<open>sqlite3Utf8Read\<close>. A byte below \<open>0xC0\<close> is a character by itself. A byte from \<open>0xC0\<close>
  up starts a character that takes in every continuation byte (\<open>0x80\<close> to \<open>0xBF\<close>) that
  follows: its value starts from the table \<open>sqlite3Utf8Trans1\<close>, each continuation byte
  shifts six bits in (in 32-bit arithmetic), and a value below \<open>0x80\<close>, a surrogate, or
  \<open>0xFFFE\<close>/\<open>0xFFFF\<close> is read as \<open>0xFFFD\<close>.
\<close>

definition is_cont :: "char \<Rightarrow> bool" where
  "is_cont b = ((128::nat) \<le> of_char b \<and> (of_char b :: nat) < 192)"

definition sqlite3Utf8Trans1 :: "int \<Rightarrow> int" where
  "sqlite3Utf8Trans1 b =
     (if b < 224 then b mod 32
      else if b < 240 then b mod 16
      else if b < 248 then b mod 8
      else if b < 252 then b mod 4
      else if b < 254 then b mod 2
      else 0)"

definition utf8_char :: "char \<Rightarrow> string \<Rightarrow> int" where
  "utf8_char b conts =
     (let c = fold (\<lambda>x c. (c * 64 + of_char x mod 64) mod 4294967296) conts
                (sqlite3Utf8Trans1 (of_char b))
      in if c < 128 \<or> c div 2048 = 27 \<or> c div 2 = 32767 then 65533 else c)"

function utf8_decode :: "string \<Rightarrow> int list" where
  "utf8_decode [] = []"
| "utf8_decode (b # bs) =
     (if (of_char b :: nat) < 192 then of_char b # utf8_decode bs
      else utf8_char b (takeWhile is_cont bs) # utf8_decode (dropWhile is_cont bs))"
  by pat_completeness auto
termination
  by (relation "measure length") (simp_all add: less_Suc_eq_le length_dropWhile_le)

text \<open>The characters SQLite reads from a text value.\<close>

definition sql_text :: "string \<Rightarrow> int list" where
  "sql_text s = utf8_decode (c_string s)"

text \<open>
  \<open>patternCompare\<close> with the settings of \<open>LIKE\<close>: \<open>matchAll\<close> is \<open>%\<close>, \<open>matchOne\<close> is \<open>_\<close>,
  there is no escape character, and case is folded for ASCII letters only.
  \<open>after_matchAll\<close> is the code that runs once a \<open>%\<close> has been read (it skips further
  \<open>%\<close> and \<open>_\<close>, one input character for each \<open>_\<close>), and \<open>seek\<close> is its search for the
  next pattern character in the input.
\<close>

datatype match = SQLITE_MATCH | SQLITE_NOMATCH | SQLITE_NOWILDCARDMATCH

definition matchAll :: int where
  "matchAll = 37"

definition matchOne :: int where
  "matchOne = 95"

definition sqlite3Tolower :: "int \<Rightarrow> int" where
  "sqlite3Tolower c = (if 65 \<le> c \<and> c \<le> 90 then c + 32 else c)"

definition sqlite3Toupper :: "int \<Rightarrow> int" where
  "sqlite3Toupper c = (if 97 \<le> c \<and> c \<le> 122 then c - 32 else c)"

definition like_eq :: "int \<Rightarrow> int \<Rightarrow> bool" where
  "like_eq c c2 = (c = c2 \<or> (sqlite3Tolower c = sqlite3Tolower c2 \<and> c < 128 \<and> c2 < 128))"

fun patternCompare :: "int list \<Rightarrow> int list \<Rightarrow> match"
  and after_matchAll :: "int list \<Rightarrow> int list \<Rightarrow> match"
  and seek :: "int \<Rightarrow> int list \<Rightarrow> int list \<Rightarrow> match" where
  "patternCompare [] s = (if s = [] then SQLITE_MATCH else SQLITE_NOMATCH)"
| "patternCompare (c # p) [] =
     (if c = matchAll then after_matchAll p [] else SQLITE_NOMATCH)"
| "patternCompare (c # p) (c2 # s) =
     (if c = matchAll then after_matchAll p (c2 # s)
      else if like_eq c c2 \<or> c = matchOne then patternCompare p s
      else SQLITE_NOMATCH)"
| "after_matchAll [] s = SQLITE_MATCH"
| "after_matchAll (c # p) [] =
     (if c = matchAll then after_matchAll p []
      else if c = matchOne then SQLITE_NOWILDCARDMATCH
      else seek c p [])"
| "after_matchAll (c # p) (c2 # s) =
     (if c = matchAll then after_matchAll p (c2 # s)
      else if c = matchOne then after_matchAll p s
      else seek c p (c2 # s))"
| "seek c p [] = SQLITE_NOWILDCARDMATCH"
| "seek c p (c2 # s) =
     (if (if c < 128 then c2 = sqlite3Toupper c \<or> c2 = sqlite3Tolower c else c2 = c)
      then (case patternCompare p s of
              SQLITE_NOMATCH \<Rightarrow> seek c p s
            | SQLITE_MATCH \<Rightarrow> SQLITE_MATCH
            | SQLITE_NOWILDCARDMATCH \<Rightarrow> SQLITE_NOWILDCARDMATCH)
      else seek c p s)"

text \<open>\<open>s LIKE pattern\<close>.\<close>

definition sql_LIKE :: "string \<Rightarrow> string \<Rightarrow> bool" where
  "sql_LIKE pattern s = (patternCompare (sql_text pattern) (sql_text s) = SQLITE_MATCH)"

text \<open>
  The \<open>LIKE\<close> operator refuses a pattern of more than 50000 bytes
  (\<open>SQLITE_MAX_LIKE_PATTERN_LENGTH\<close>) when it is evaluated on a row.
\<close>

definition max_like_pattern_length :: nat where
  "max_like_pattern_length = 50000"

text \<open>
  \<open>GetFilesInDirectory\<close>: the rows \<open>WHERE path LIKE ? ORDER BY path\<close> (the column has
  the binary collation: byte-wise order), each scanned into a \<open>FileStatus\<close>.
\<close>

definition like_rows :: "string \<Rightarrow> files_table \<Rightarrow> files_row list" where
  "like_rows pattern t = sort_key r_path (filter (\<lambda>r. sql_LIKE pattern (r_path r)) (rows t))"

definition GetFilesInDirectory :: "files_table \<Rightarrow> string \<Rightarrow> error + FileStatus list" where
  "GetFilesInDirectory t directory =
     (let pattern = directoryPattern directory
      in if rows t \<noteq> [] \<and> max_like_pattern_length < length pattern
         then Inl LikePatternTooComplex
         else scan_all (like_rows pattern t))"

subsection \<open>Vocabulary for the outcome of a directory listing\<close>



section \<open>Example data\<close>

text \<open>
  Two text engines for the examples. \<open>words\<close> cuts a text into its runs of ASCII letters
  and digits, lower-cased (Bleve's standard analyzer, which also drops English stop
  words; the examples do not rest on them). In \<open>example_engine\<close> every string field is
  indexed that way, as Bleve's default mapping does, and a query on \<open>Extension\<close> or
  \<open>ContentType\<close> keeps its text as one term (the keyword analyzer that
  \<open>createIndexMapping\<close> names for these fields). In \<open>mapped_engine\<close> these two fields are
  kept as one term on both sides. The encoded terms of numbers and times are no words
  and are left out, and the query-string query is not used in the examples.
\<close>

definition is_alnum :: "char \<Rightarrow> bool" where
  "is_alnum c =
     (c \<in> set ''abcdefghijklmnopqrstuvwxyzABCDEFGHIJKLMNOPQRSTUVWXYZ0123456789'')"

fun words :: "string \<Rightarrow> string \<Rightarrow> string list" where
  "words [] w = (if w = [] then [] else [rev w])"
| "words (c # cs) w =
     (if is_alnum c then words cs (ascii_lower c # w)
      else if w = [] then words cs []
      else rev w # words cs [])"

definition keyword_or_words :: "string \<Rightarrow> string \<Rightarrow> string list" where
  "keyword_or_words f s = (if f = ''Extension'' \<or> f = ''ContentType'' then [s] else words s [])"

definition example_engine :: text_engine where
  "example_engine =
     \<lparr>index_terms = (\<lambda>f s. words s []), query_terms = keyword_or_words,
      numeric_terms = (\<lambda>n. []), datetime_terms = (\<lambda>t. []),
      query_string_hit = (\<lambda>q k d. False)\<rparr>"


definition example_cfg :: IndexConfig where
  "example_cfg = \<lparr>IndexDir = ''index'', IndexSummaries = True\<rparr>"

text \<open>The two files of the repository's indexer test, as rows of the table.\<close>

definition example_row1 :: files_row where
  "example_row1 =
     \<lparr>r_id = 1, r_path = ''/test/path/file.txt'', r_relative_path = ''path/file.txt'',
      r_size = 1024, r_mod_time = 10, r_is_dir = False, r_content_type = Some ''text/plain'',
      r_sha256 = Some ''abcdef1234567890'', r_processed = Some True,
      r_uploaded_url = Some ''https://example.com/file.txt'', r_upload_time = Some 11,
      r_summary = Some ''This is a test file''\<rparr>"

definition example_row2 :: files_row where
  "example_row2 =
     \<lparr>r_id = 2, r_path = ''/test/path/file2.doc'', r_relative_path = ''path/file2.doc'',
      r_size = 2048, r_mod_time = 12, r_is_dir = False,
      r_content_type = Some ''application/msword'', r_sha256 = Some ''09876543210abcdef'',
      r_processed = Some True, r_uploaded_url = Some ''https://example.com/file2.doc'',
      r_upload_time = Some 13, r_summary = Some ''This is another test file with some content''\<rparr>"

text \<open>A row as the scanner leaves it: never uploaded, never summarised.\<close>

definition example_row3 :: files_row where
  "example_row3 =
     inserted_row 3
       \<lparr>info_Path = ''/test/path/new.txt'', info_RelativePath = ''path/new.txt'',
        info_Size = 7, info_ModTime = 14, info_IsDir = False,
        info_ContentType = ''text/plain'', info_SHA256 = ''00ff''\<rparr>"


definition example_file1 :: FileStatus where
  "example_file1 =
     \<lparr>ID = 1, Path = ''/test/path/file.txt'', RelativePath = ''path/file.txt'', Size = 1024,
      ModTime = 10, IsDir = False, ContentType = ''text/plain'', SHA256 = ''abcdef1234567890'',
      Processed = True, UploadedURL = ''https://example.com/file.txt'', UploadTime = Some 11,
      Summary = ''This is a test file''\<rparr>"

definition example_file2 :: FileStatus where
  "example_file2 =
     \<lparr>ID = 2, Path = ''/test/path/file2.doc'', RelativePath = ''path/file2.doc'', Size = 2048,
      ModTime = 12, IsDir = False, ContentType = ''application/msword'',
      SHA256 = ''09876543210abcdef'', Processed = True,
      UploadedURL = ''https://example.com/file2.doc'', UploadTime = Some 13,
      Summary = ''This is another test file with some content''\<rparr>"

text \<open>A document indexed earlier for a file whose row is no longer in the table.\<close>

definition example_old_doc :: FileIndex where
  "example_old_doc =
     \<lparr>doc_ID = ''99'', doc_Path = ''/test/path/old.txt'', doc_RelativePath = ''path/old.txt'',
      doc_Name = ''old.txt'', doc_Extension = ''.txt'', doc_Size = 5, doc_ModTime = 1,
      doc_IsDir = False, doc_ContentType = ''text/plain'', doc_Summary = ''gone'',
      doc_UploadedURL = [], doc_UpdatedAt = 2\<rparr>"

section \<open>Properties of the manifest\<close>

lemma fold_max_ge_init: "(a::int) \<le> fold max xs a"
  by (induction xs arbitrary: a) (auto intro: order_trans [OF max.cobounded2])

lemma fold_max_ge_elem: "(x::int) \<in> set xs \<Longrightarrow> x \<le> fold max xs a"
proof (induction xs arbitrary: a)
  case Nil
  then show ?case by simp
next
  case (Cons y ys)
  show ?case
  proof (cases "x = y")
    case True
    have "y \<le> max y a" by simp
    also have "\<dots> \<le> fold max ys (max y a)" by (rule fold_max_ge_init)
    finally show ?thesis using True by simp
  next
    case False
    with Cons show ?thesis by simp
  qed
qed

lemma fold_max_bounded: "(\<forall>x \<in> set xs. x \<le> a) \<Longrightarrow> fold max xs (a::int) = a"
  by (induction xs) (auto simp: max_def)

lemma row_id_le_largest: "r \<in> set (rows t) \<Longrightarrow> r_id r \<le> largest_rowid t"
  unfolding largest_rowid_def by (rule fold_max_ge_elem) simp

lemma sequence_le_largest: "sqlite_sequence t \<le> largest_rowid t"
  unfolding largest_rowid_def by (rule fold_max_ge_init)

lemma saveFileInfo_ok:
  "largest_rowid t < max_rowid \<Longrightarrow>
   saveFileInfo info t =
     Inr \<lparr>rows = filter (\<lambda>r. r_path r \<noteq> info_Path info) (rows t)
                    @ [inserted_row (largest_rowid t + 1) info],
          sqlite_sequence = largest_rowid t + 1\<rparr>"
  by (simp add: saveFileInfo_def next_rowid_def)

lemma largest_after_insert:
  "largest_rowid \<lparr>rows = filter P (rows t) @ [inserted_row (largest_rowid t + 1) info],
                  sqlite_sequence = largest_rowid t + 1\<rparr> = largest_rowid t + 1"
proof -
  have "\<forall>x \<in> set (map r_id (filter P (rows t))). x \<le> largest_rowid t + 1"
    using row_id_le_largest [of _ t] by fastforce
  then have "fold max (map r_id (filter P (rows t))) (largest_rowid t + 1) = largest_rowid t + 1"
    by (rule fold_max_bounded)
  then show ?thesis
    by (simp add: largest_rowid_def inserted_row_def)
qed

lemma filter_path_after_insert:
  "filter (\<lambda>r. r_path r = info_Path info)
     (filter (\<lambda>r. r_path r \<noteq> info_Path info) rs @ [inserted_row n info]) = [inserted_row n info]"
  by (induction rs) (auto simp: inserted_row_def)

text \<open>
  Claim C5. Two upserts in a row for the same path (in particular with identical content)
  both succeed, as long as the id generator has room for two more ids, and leave exactly
  one row with that path; its path, relative path, size, modification time, directory
  flag, content type and hash are those of the second upsert.
\<close>

theorem saveFileInfo_twice:
  assumes room: "largest_rowid t + 1 < max_rowid"
    and same: "info_Path info2 = info_Path info1"
  shows "\<exists>t1 t2 r. saveFileInfo info1 t = Inr t1 \<and> saveFileInfo info2 t1 = Inr t2 \<and>
           filter (\<lambda>r. r_path r = info_Path info2) (rows t2) = [r] \<and>
           r_path r = info_Path info2 \<and> r_relative_path r = info_RelativePath info2 \<and>
           r_size r = info_Size info2 \<and> r_mod_time r = info_ModTime info2 \<and>
           r_is_dir r = info_IsDir info2 \<and> r_content_type r = Some (info_ContentType info2) \<and>
           r_sha256 r = Some (info_SHA256 info2)"
proof -
  let ?t1 = "\<lparr>rows = filter (\<lambda>r. r_path r \<noteq> info_Path info1) (rows t)
                    @ [inserted_row (largest_rowid t + 1) info1],
              sqlite_sequence = largest_rowid t + 1\<rparr>"
  have s1: "saveFileInfo info1 t = Inr ?t1"
    using room by (intro saveFileInfo_ok) simp
  have l1: "largest_rowid ?t1 = largest_rowid t + 1"
    by (rule largest_after_insert)
  let ?r = "inserted_row (largest_rowid ?t1 + 1) info2"
  let ?t2 = "\<lparr>rows = filter (\<lambda>r. r_path r \<noteq> info_Path info2) (rows ?t1) @ [?r],
              sqlite_sequence = largest_rowid ?t1 + 1\<rparr>"
  have s2: "saveFileInfo info2 ?t1 = Inr ?t2"
    using room l1 by (intro saveFileInfo_ok) simp
  have one: "filter (\<lambda>r. r_path r = info_Path info2) (rows ?t2) = [?r]"
    using filter_path_after_insert [of info2 "rows ?t1"] by simp
  have vals: "r_path ?r = info_Path info2 \<and> r_relative_path ?r = info_RelativePath info2 \<and>
           r_size ?r = info_Size info2 \<and> r_mod_time ?r = info_ModTime info2 \<and>
           r_is_dir ?r = info_IsDir info2 \<and> r_content_type ?r = Some (info_ContentType info2) \<and>
           r_sha256 ?r = Some (info_SHA256 info2)"
    by (simp add: inserted_row_def)
  show ?thesis
    using s1 s2 one vals by blast
qed

theorem saveFileInfo_twice_witness:
  "\<exists>t1 t2 r.
     saveFileInfo \<lparr>info_Path = ''/d/a.txt'', info_RelativePath = ''a.txt'', info_Size = 100,
                   info_ModTime = 5, info_IsDir = False, info_ContentType = ''text/plain'',
                   info_SHA256 = ''ab''\<rparr> empty_table = Inr t1 \<and>
     saveFileInfo \<lparr>info_Path = ''/d/a.txt'', info_RelativePath = ''a.txt'', info_Size = 100,
                   info_ModTime = 5, info_IsDir = False, info_ContentType = ''text/plain'',
                   info_SHA256 = ''ab''\<rparr> t1 = Inr t2 \<and>
     filter (\<lambda>r. r_path r = ''/d/a.txt'') (rows t2) = [r] \<and>
     r_path r = ''/d/a.txt'' \<and> r_relative_path r = ''a.txt'' \<and> r_size r = 100 \<and> r_mod_time r = 5 \<and> r_is_dir r = False \<and>
     r_content_type r = Some ''text/plain'' \<and> r_sha256 r = Some ''ab''"
proof -
  let ?i = "\<lparr>info_Path = ''/d/a.txt'', info_RelativePath = ''a.txt'', info_Size = 100,
                   info_ModTime = 5, info_IsDir = False, info_ContentType = ''text/plain'',
                   info_SHA256 = ''ab''\<rparr>"
  have room: "largest_rowid empty_table + 1 < max_rowid"
    by (simp add: largest_rowid_def empty_table_def max_rowid_def)
  show ?thesis
    using saveFileInfo_twice [OF room, of ?i ?i] by simp
qed

text \<open>
  Claim C2, as the code has it. An upsert for a path that is already stored replaces the
  whole row: the row of that path afterwards is the freshly inserted one, with a new id
  larger than the old id, than every id in the table and than every id assigned before;
  \<open>processed\<close> is back at its default \<open>FALSE\<close> and \<open>uploaded_url\<close>, \<open>upload_time\<close> and
  \<open>summary\<close> are \<open>NULL\<close>. The rows of the other paths are untouched, and since the largest
  id only grows, no id is ever used twice.
\<close>

theorem saveFileInfo_replaces_row:
  assumes room: "largest_rowid t < max_rowid"
    and old: "r0 \<in> set (rows t)" "r_path r0 = info_Path info"
  shows "\<exists>t'. saveFileInfo info t = Inr t' \<and>
           filter (\<lambda>r. r_path r = info_Path info) (rows t') =
             [inserted_row (largest_rowid t + 1) info] \<and>
           filter (\<lambda>r. r_path r \<noteq> info_Path info) (rows t') =
             filter (\<lambda>r. r_path r \<noteq> info_Path info) (rows t) \<and>
           r_id r0 < r_id (inserted_row (largest_rowid t + 1) info) \<and>
           r_processed (inserted_row (largest_rowid t + 1) info) = Some False \<and>
           r_uploaded_url (inserted_row (largest_rowid t + 1) info) = None \<and>
           r_upload_time (inserted_row (largest_rowid t + 1) info) = None \<and>
           r_summary (inserted_row (largest_rowid t + 1) info) = None \<and>
           (\<forall>r \<in> set (rows t). r_id r < largest_rowid t + 1) \<and>
           sqlite_sequence t < largest_rowid t + 1 \<and>
           largest_rowid t' = largest_rowid t + 1"
proof -
  let ?n = "largest_rowid t + 1"
  let ?t' = "\<lparr>rows = filter (\<lambda>r. r_path r \<noteq> info_Path info) (rows t) @ [inserted_row ?n info],
              sqlite_sequence = ?n\<rparr>"
  have s: "saveFileInfo info t = Inr ?t'"
    using room by (rule saveFileInfo_ok)
  have one: "filter (\<lambda>r. r_path r = info_Path info) (rows ?t') = [inserted_row ?n info]"
    using filter_path_after_insert [of info "rows t" ?n] by simp
  have rest: "filter (\<lambda>r. r_path r \<noteq> info_Path info) (rows ?t') =
             filter (\<lambda>r. r_path r \<noteq> info_Path info) (rows t)"
    by (simp add: inserted_row_def)
  have ids: "\<forall>r \<in> set (rows t). r_id r < ?n"
    using row_id_le_largest [of _ t] by fastforce
  have idr: "r_id r0 < r_id (inserted_row ?n info)"
    using ids old(1) by (simp add: inserted_row_def)
  have sq: "sqlite_sequence t < ?n"
    using sequence_le_largest [of t] by simp
  have lg: "largest_rowid ?t' = ?n"
    by (rule largest_after_insert)
  have fresh: "r_processed (inserted_row ?n info) = Some False \<and>
           r_uploaded_url (inserted_row ?n info) = None \<and>
           r_upload_time (inserted_row ?n info) = None \<and>
           r_summary (inserted_row ?n info) = None"
    by (simp add: inserted_row_def)
  show ?thesis
    using s one rest ids idr sq lg fresh by blast
qed

theorem saveFileInfo_replaces_row_witness:
  "\<exists>t'. saveFileInfo
          \<lparr>info_Path = ''/d/a.txt'', info_RelativePath = ''a.txt'', info_Size = 100,
           info_ModTime = 5, info_IsDir = False, info_ContentType = ''text/plain'',
           info_SHA256 = ''ab''\<rparr>
          \<lparr>rows = [\<lparr>r_id = 1, r_path = ''/d/a.txt'', r_relative_path = ''a.txt'', r_size = 90,
                    r_mod_time = 4, r_is_dir = False, r_content_type = Some ''text/plain'',
                    r_sha256 = Some ''cd'', r_processed = Some True,
                    r_uploaded_url = Some ''https://b2/a.txt'', r_upload_time = Some 7,
                    r_summary = Some ''notes''\<rparr>],
           sqlite_sequence = 1\<rparr> = Inr t' \<and>
        map r_id (rows t') = [2] \<and> map r_processed (rows t') = [Some False] \<and>
        map r_uploaded_url (rows t') = [None] \<and> map r_summary (rows t') = [None] \<and>
        largest_rowid t' = 2"
proof -
  let ?i = "\<lparr>info_Path = ''/d/a.txt'', info_RelativePath = ''a.txt'', info_Size = 100,
           info_ModTime = 5, info_IsDir = False, info_ContentType = ''text/plain'',
           info_SHA256 = ''ab''\<rparr>"
  let ?r = "\<lparr>r_id = 1, r_path = ''/d/a.txt'', r_relative_path = ''a.txt'', r_size = 90,
                    r_mod_time = 4, r_is_dir = False, r_content_type = Some ''text/plain'',
                    r_sha256 = Some ''cd'', r_processed = Some True,
                    r_uploaded_url = Some ''https://b2/a.txt'', r_upload_time = Some 7,
                    r_summary = Some ''notes''\<rparr>"
  let ?t = "\<lparr>rows = [?r], sqlite_sequence = 1\<rparr>"
  have lg: "largest_rowid ?t = 1"
    by (simp add: largest_rowid_def)
  have room: "largest_rowid ?t < max_rowid"
    by (simp add: lg max_rowid_def)
  have mem: "?r \<in> set (rows ?t)"
    by simp
  have pth: "r_path ?r = info_Path ?i"
    by simp
  obtain t' where t': "saveFileInfo ?i ?t = Inr t'"
      "filter (\<lambda>r. r_path r = info_Path ?i) (rows t') = [inserted_row (largest_rowid ?t + 1) ?i]"
      "filter (\<lambda>r. r_path r \<noteq> info_Path ?i) (rows t') =
         filter (\<lambda>r. r_path r \<noteq> info_Path ?i) (rows ?t)"
      "largest_rowid t' = largest_rowid ?t + 1"
    using saveFileInfo_replaces_row [OF room mem pth] by blast
  have "rows t' = [inserted_row 2 ?i]"
    using t'(1) by (simp add: saveFileInfo_def next_rowid_def lg max_rowid_def) (use t'(1) in auto)
  then have "map r_id (rows t') = [2] \<and> map r_processed (rows t') = [Some False] \<and>
        map r_uploaded_url (rows t') = [None] \<and> map r_summary (rows t') = [None]"
    by (simp add: inserted_row_def)
  moreover have "largest_rowid t' = 2"
    using t'(4) lg by simp
  ultimately show ?thesis
    using t'(1) by (intro exI [of _ t']) simp
qed

text \<open>
  The claim as stated fails: the row of \<open>/d/a.txt\<close> had id 1 and was processed, uploaded
  and summarised; after the second upsert it has id 2 and its status is gone.
\<close>

theorem saveFileInfo_keeps_status_counterexample:
  "saveFileInfo
     \<lparr>info_Path = ''/d/a.txt'', info_RelativePath = ''a.txt'', info_Size = 100,
      info_ModTime = 5, info_IsDir = False, info_ContentType = ''text/plain'',
      info_SHA256 = ''ab''\<rparr>
     \<lparr>rows = [\<lparr>r_id = 1, r_path = ''/d/a.txt'', r_relative_path = ''a.txt'', r_size = 90,
               r_mod_time = 4, r_is_dir = False, r_content_type = Some ''text/plain'',
               r_sha256 = Some ''cd'', r_processed = Some True,
               r_uploaded_url = Some ''https://b2/a.txt'', r_upload_time = Some 7,
               r_summary = Some ''notes''\<rparr>],
      sqlite_sequence = 1\<rparr>
   = Inr \<lparr>rows = [\<lparr>r_id = 2, r_path = ''/d/a.txt'', r_relative_path = ''a.txt'', r_size = 100,
               r_mod_time = 5, r_is_dir = False, r_content_type = Some ''text/plain'',
               r_sha256 = Some ''ab'', r_processed = Some False,
               r_uploaded_url = None, r_upload_time = None, r_summary = None\<rparr>],
          sqlite_sequence = 2\<rparr>"
  by (simp add: saveFileInfo_def next_rowid_def largest_rowid_def max_rowid_def inserted_row_def)

text \<open>
  Claim C4, as the code has it. \<open>UpdateFileStatus\<close> returns no error whether or not the
  id is stored. Every row with the id gets the given \<open>processed\<close>, \<open>uploaded_url\<close> and
  \<open>summary\<close> and the current time as \<open>upload_time\<close>, its other columns unchanged; every
  other row is unchanged; with no row of that id the table stays as it was.
\<close>

theorem UpdateFileStatus_effect:
  "\<exists>t'. UpdateFileStatus now fid processed uploadedURL summary t = Inr t' \<and>
     sqlite_sequence t' = sqlite_sequence t \<and>
     length (rows t') = length (rows t) \<and>
     (\<forall>i < length (rows t).
        (r_id (rows t ! i) = fid \<longrightarrow>
           rows t' ! i = (rows t ! i)\<lparr>r_processed := Some processed,
             r_uploaded_url := Some uploadedURL, r_upload_time := Some now,
             r_summary := Some summary\<rparr>) \<and>
        (r_id (rows t ! i) \<noteq> fid \<longrightarrow> rows t' ! i = rows t ! i)) \<and>
     (fid \<notin> r_id ` set (rows t) \<longrightarrow> t' = t)"
proof -
  let ?f = "\<lambda>r. if r_id r = fid
                then r\<lparr>r_processed := Some processed, r_uploaded_url := Some uploadedURL,
                       r_upload_time := Some now, r_summary := Some summary\<rparr>
                else r"
  have absent: "fid \<notin> r_id ` set (rows t) \<Longrightarrow> map ?f (rows t) = rows t"
    by (rule map_idI) auto
  show ?thesis
    unfolding UpdateFileStatus_def using absent by auto
qed

theorem UpdateFileStatus_effect_witness:
  "UpdateFileStatus 9 1 True ''https://b2/a.txt'' ''notes''
     \<lparr>rows = [inserted_row 1 \<lparr>info_Path = ''/d/a.txt'', info_RelativePath = ''a.txt'',
                info_Size = 100, info_ModTime = 5, info_IsDir = False,
                info_ContentType = ''text/plain'', info_SHA256 = ''ab''\<rparr>,
              inserted_row 2 \<lparr>info_Path = ''/d/b.txt'', info_RelativePath = ''b.txt'',
                info_Size = 200, info_ModTime = 6, info_IsDir = False,
                info_ContentType = ''text/plain'', info_SHA256 = ''cd''\<rparr>],
      sqlite_sequence = 2\<rparr>
   = Inr \<lparr>rows = [\<lparr>r_id = 1, r_path = ''/d/a.txt'', r_relative_path = ''a.txt'', r_size = 100,
                    r_mod_time = 5, r_is_dir = False, r_content_type = Some ''text/plain'',
                    r_sha256 = Some ''ab'', r_processed = Some True,
                    r_uploaded_url = Some ''https://b2/a.txt'', r_upload_time = Some 9,
                    r_summary = Some ''notes''\<rparr>,
                   inserted_row 2 \<lparr>info_Path = ''/d/b.txt'', info_RelativePath = ''b.txt'',
                     info_Size = 200, info_ModTime = 6, info_IsDir = False,
                     info_ContentType = ''text/plain'', info_SHA256 = ''cd''\<rparr>],
           sqlite_sequence = 2\<rparr>"
  using UpdateFileStatus_effect [of 9 1 True "''https://b2/a.txt''" "''notes''"
      "\<lparr>rows = [inserted_row 1 \<lparr>info_Path = ''/d/a.txt'', info_RelativePath = ''a.txt'',
                info_Size = 100, info_ModTime = 5, info_IsDir = False,
                info_ContentType = ''text/plain'', info_SHA256 = ''ab''\<rparr>,
              inserted_row 2 \<lparr>info_Path = ''/d/b.txt'', info_RelativePath = ''b.txt'',
                info_Size = 200, info_ModTime = 6, info_IsDir = False,
                info_ContentType = ''text/plain'', info_SHA256 = ''cd''\<rparr>],
      sqlite_sequence = 2\<rparr>"]
  by (simp add: UpdateFileStatus_def inserted_row_def)

text \<open>The claim as stated fails: id 7 is not in the empty table, and no error is returned.\<close>

theorem UpdateFileStatus_not_found_counterexample:
  "UpdateFileStatus 100 7 True ''https://b2/a.txt'' ''notes'' empty_table = Inr empty_table"
  by (simp add: UpdateFileStatus_def empty_table_def)

text \<open>
  Claim C9. When the table holds no row that is not a directory, \<open>GetStats\<close> returns an
  error and no statistics: \<open>SUM(size)\<close> over no rows is \<open>NULL\<close>, which does not scan into
  the \<open>int64\<close> total.
\<close>

theorem GetStats_no_files:
  assumes "filter (\<lambda>r. \<not> r_is_dir r) (rows t) = []"
  shows "GetStats t = Inl (ScanNULL 0)"
  using assms by (simp add: GetStats_def sql_SUM_def scan_int64_def)

theorem GetStats_no_files_witness:
  "filter (\<lambda>r. \<not> r_is_dir r) (rows (initDB None)) = [] \<and>
   GetStats (initDB None) = Inl (ScanNULL 0)"
proof -
  have h: "filter (\<lambda>r. \<not> r_is_dir r) (rows (initDB None)) = []"
    by (simp add: initDB_def empty_table_def)
  show ?thesis
    using h GetStats_no_files [OF h] by simp
qed

section \<open>Properties of the index engine\<close>

lemma dec_nat_nonempty: "dec_nat n \<noteq> []"
  by (subst dec_nat.simps) simp

lemma FormatInt_nonempty: "FormatInt i \<noteq> []"
  by (simp add: FormatInt_def dec_nat_nonempty)

lemma doc_ID_file_document: "doc_ID (file_document ul cfg now f) = FormatInt (ID f)"
  by (simp add: file_document_def Let_def)

lemma scan_all_length: "scan_all gs = Inr fs \<Longrightarrow> length fs = length gs"
  by (induction gs arbitrary: fs) (auto split: sum.splits)

lemma scan_all_nth: "scan_all gs = Inr fs \<Longrightarrow> i < length gs \<Longrightarrow> scan_row (gs ! i) = Inr (fs ! i)"
proof (induction gs arbitrary: fs i)
  case Nil
  then show ?case by simp
next
  case (Cons g gs)
  then show ?case
    by (cases i) (auto split: sum.splits)
qed

lemma scan_row_ID: "scan_row r = Inr f \<Longrightarrow> ID f = r_id r"
  by (auto simp: scan_row_def split: option.splits)

lemma scan_all_IDs: "scan_all gs = Inr fs \<Longrightarrow> map ID fs = map r_id gs"
  by (induction gs arbitrary: fs) (auto split: sum.splits dest: scan_row_ID)

lemma documents_length: "length (documents ul cfg clk n fs) = length fs"
  by (induction fs arbitrary: n) auto

lemma documents_nth:
  "i < length fs \<Longrightarrow>
   documents ul cfg clk n fs ! i =
     (doc_ID (file_document ul cfg (clk (n + i)) (fs ! i)), file_document ul cfg (clk (n + i)) (fs ! i))"
proof (induction fs arbitrary: n i)
  case Nil
  then show ?case by simp
next
  case (Cons f fs)
  then show ?case
    by (cases i) auto
qed

lemma documents_keys: "map fst (documents ul cfg clk n fs) = map (\<lambda>f. FormatInt (ID f)) fs"
  by (induction fs arbitrary: n) (auto simp: doc_ID_file_document)

lemma put_all_append: "put_all (xs @ ys) m = put_all ys (put_all xs m)"
  by (simp add: put_all_def)

lemma put_all_Nil: "put_all [] m = m"
  by (simp add: put_all_def)

lemma dom_put_all: "dom (put_all ds m) = dom m \<union> fst ` set ds"
  unfolding put_all_def by (induction ds arbitrary: m) auto

lemma put_all_other: "k \<notin> fst ` set ds \<Longrightarrow> put_all ds m k = m k"
  unfolding put_all_def by (induction ds arbitrary: m) auto

lemma map_add_fold_update:
  "m ++ map_of (fold (\<lambda>kd b. AList.update (fst kd) (snd kd) b) ds b) = put_all ds (m ++ map_of b)"
  unfolding put_all_def
  by (induction ds arbitrary: b) (simp_all add: update_conv')

lemma map_add_to_batch: "m ++ map_of (to_batch ds) = put_all ds m"
  using map_add_fold_update [of m ds "[]"] by (simp add: to_batch_def)

lemma to_batch_snoc: "to_batch (ds @ [kd]) = AList.update (fst kd) (snd kd) (to_batch ds)"
  by (simp add: to_batch_def)

lemma to_batch_empty_iff: "to_batch ds = [] \<longleftrightarrow> ds = []"
proof (cases ds rule: rev_cases)
  case Nil
  then show ?thesis by (simp add: to_batch_def)
next
  case (snoc xs x)
  then show ?thesis by (simp add: to_batch_snoc)
qed

lemma boundary_le: "boundary n \<le> n"
  by (simp add: boundary_def)

lemma boundary_step_full:
  "Suc n mod batchSize = 0 \<Longrightarrow> boundary (Suc n) = Suc n \<and> Suc n div batchSize = Suc (n div batchSize)"
proof -
  assume a: "Suc n mod batchSize = 0"
  have "boundary (Suc n) = Suc n" using a by (simp add: boundary_def)
  moreover have "Suc n div batchSize = Suc (n div batchSize)"
    using a by (simp add: batchSize_def div_Suc)
  ultimately show ?thesis by simp
qed

lemma boundary_step_part:
  "Suc n mod batchSize \<noteq> 0 \<Longrightarrow> boundary (Suc n) = boundary n \<and> Suc n div batchSize = n div batchSize"
proof -
  assume a: "Suc n mod batchSize \<noteq> 0"
  have m: "Suc n mod batchSize = Suc (n mod batchSize)"
    using a by (simp add: batchSize_def mod_Suc split: if_splits)
  have "boundary (Suc n) = boundary n"
    unfolding boundary_def m using mod_less_eq_dividend [of n batchSize] by simp
  moreover have "Suc n div batchSize = n div batchSize"
    using a by (simp add: batchSize_def div_Suc)
  ultimately show ?thesis by simp
qed

lemma div_batch_mono: "Suc n \<le> m \<Longrightarrow> Suc n mod batchSize = 0 \<Longrightarrow> n div batchSize < m div batchSize"
proof -
  assume le: "Suc n \<le> m" and a: "Suc n mod batchSize = 0"
  have "Suc n div batchSize = Suc (n div batchSize)"
    using a by (simp add: batchSize_def div_Suc)
  moreover have "Suc n div batchSize \<le> m div batchSize"
    using le by (rule div_le_mono)
  ultimately show ?thesis by simp
qed

lemma to_batch_Nil: "to_batch [] = []"
  by (simp add: to_batch_def)

lemma build_loop_step:
  assumes sr: "scan_row r = Inr f"
  shows "build_loop bf re ul cfg clk (r # rs) idx b cnt nb =
     (if Suc cnt mod batchSize = 0
      then (if bf nb
            then \<lparr>br_count = Suc cnt, br_err = Some BatchFailed, br_index = idx\<rparr>
            else build_loop bf re ul cfg clk rs
                   (idx ++ map_of (AList.update (FormatInt (ID f)) (file_document ul cfg (clk cnt) f) b))
                   [] (Suc cnt) (Suc nb))
      else build_loop bf re ul cfg clk rs idx
             (AList.update (FormatInt (ID f)) (file_document ul cfg (clk cnt) f) b) (Suc cnt) nb)"
  using sr
  by (simp add: batch_Index_def doc_ID_file_document FormatInt_nonempty Let_def)

lemma build_loop_good:
  assumes sc: "scan_all gs = Inr fs"
    and ok: "\<forall>j < length gs div batchSize. \<not> bf j"
    and le: "cnt \<le> length gs"
  shows "build_loop bf re ul cfg clk (drop cnt gs @ rest)
           (put_all (take (boundary cnt) (documents ul cfg clk 0 fs)) idx0)
           (to_batch (drop (boundary cnt) (take cnt (documents ul cfg clk 0 fs))))
           cnt (cnt div batchSize)
       = build_loop bf re ul cfg clk rest
           (put_all (take (boundary (length gs)) (documents ul cfg clk 0 fs)) idx0)
           (to_batch (drop (boundary (length gs)) (documents ul cfg clk 0 fs)))
           (length gs) (length gs div batchSize)"
  using le
proof (induction "length gs - cnt" arbitrary: cnt)
  case 0
  then have "cnt = length gs" by simp
  then show ?case
    using scan_all_length [OF sc] by (simp add: documents_length)
next
  case (Suc k)
  let ?D = "documents ul cfg clk 0 fs"
  let ?c = "boundary cnt"
  let ?f = "fs ! cnt"
  let ?d = "file_document ul cfg (clk cnt) ?f"
  have lt: "cnt < length gs"
    using Suc.hyps(2) by simp
  have lD: "length ?D = length gs"
    using scan_all_length [OF sc] by (simp add: documents_length)
  have ltf: "cnt < length fs"
    using lt scan_all_length [OF sc] by simp
  have nth: "?D ! cnt = (FormatInt (ID ?f), ?d)"
    using documents_nth [OF ltf, of ul cfg clk 0] by (simp add: doc_ID_file_document)
  have tk: "take (Suc cnt) ?D = take cnt ?D @ [(FormatInt (ID ?f), ?d)]"
    using lt lD nth by (simp add: take_Suc_conv_app_nth)
  have dr: "drop ?c (take (Suc cnt) ?D) = drop ?c (take cnt ?D) @ [(FormatInt (ID ?f), ?d)]"
    using boundary_le [of cnt] lt lD by (simp add: tk)
  have upd: "AList.update (FormatInt (ID ?f)) ?d (to_batch (drop ?c (take cnt ?D)))
             = to_batch (drop ?c (take (Suc cnt) ?D))"
    by (simp add: dr to_batch_snoc)
  have sr: "scan_row (gs ! cnt) = Inr ?f"
    using scan_all_nth [OF sc lt] .
  have dc: "drop cnt gs = gs ! cnt # drop (Suc cnt) gs"
    using lt by (simp add: Cons_nth_drop_Suc)
  have k: "k = length gs - Suc cnt"
    using Suc.hyps(2) by simp
  have le': "Suc cnt \<le> length gs"
    using lt by simp
  show ?case
  proof (cases "Suc cnt mod batchSize = 0")
    case True
    have nf: "\<not> bf (cnt div batchSize)"
      using ok div_batch_mono [OF le' True] by simp
    have bs: "boundary (Suc cnt) = Suc cnt" "Suc cnt div batchSize = Suc (cnt div batchSize)"
      using boundary_step_full [OF True] by simp_all
    have "take ?c ?D @ drop ?c (take (Suc cnt) ?D) = take (Suc cnt) ?D"
    proof -
      have "take ?c (take (Suc cnt) ?D) = take ?c ?D"
        using boundary_le [of cnt] by (simp add: min_def)
      then show ?thesis
        using append_take_drop_id [of ?c "take (Suc cnt) ?D"] by simp
    qed
    then have idx: "put_all (take ?c ?D) idx0 ++ map_of (to_batch (drop ?c (take (Suc cnt) ?D)))
               = put_all (take (boundary (Suc cnt)) ?D) idx0"
      by (simp add: map_add_to_batch put_all_append [symmetric] bs)
    show ?thesis
      using Suc.hyps(1) [OF k le'] True nf
      by (simp add: dc build_loop_step [OF sr] upd idx to_batch_Nil bs del: build_loop.simps)
  next
    case False
    have bs: "boundary (Suc cnt) = boundary cnt" "Suc cnt div batchSize = cnt div batchSize"
      using boundary_step_part [OF False] by simp_all
    show ?thesis
      using Suc.hyps(1) [OF k le'] False
      by (simp add: dc build_loop_step [OF sr] upd bs del: build_loop.simps)
  qed
qed

lemma boundary_eq_iff: "boundary n = n \<longleftrightarrow> n mod batchSize = 0"
proof
  assume "boundary n = n"
  then have "n - n mod batchSize = n"
    by (simp add: boundary_def)
  moreover have "n mod batchSize \<le> n"
    by (rule mod_less_eq_dividend)
  moreover have "n = 0 \<longrightarrow> n mod batchSize = 0"
    by simp
  ultimately show "n mod batchSize = 0"
    by arith
next
  assume "n mod batchSize = 0"
  then show "boundary n = n"
    by (simp add: boundary_def)
qed

lemma boundary_0: "boundary 0 = 0"
  by (simp add: boundary_def)

lemma build_loop_prefix:
  assumes sc: "scan_all gs = Inr fs"
    and ok: "\<forall>j < length gs div batchSize. \<not> bf j"
  shows "build_loop bf re ul cfg clk (gs @ rest) idx0 [] 0 0
       = build_loop bf re ul cfg clk rest
           (put_all (take (boundary (length gs)) (documents ul cfg clk 0 fs)) idx0)
           (to_batch (drop (boundary (length gs)) (documents ul cfg clk 0 fs)))
           (length gs) (length gs div batchSize)"
  using build_loop_good [OF sc ok, of 0 re ul cfg clk rest idx0]
  by (simp add: boundary_0 put_all_Nil to_batch_Nil del: build_loop.simps)

lemma pending_empty_iff:
  assumes "length ds = n"
  shows "batch_Size (to_batch (drop (boundary n) ds)) > 0 \<longleftrightarrow> n mod batchSize \<noteq> 0"
proof -
  have "batch_Size (to_batch (drop (boundary n) ds)) > 0 \<longleftrightarrow> drop (boundary n) ds \<noteq> []"
    by (simp add: batch_Size_def to_batch_empty_iff)
  also have "\<dots> \<longleftrightarrow> boundary n < n"
    using assms by auto
  also have "\<dots> \<longleftrightarrow> n mod batchSize \<noteq> 0"
    using boundary_le [of n] boundary_eq_iff [of n] by auto
  finally show ?thesis .
qed

lemma flush_pending:
  "put_all (take c ds) idx0 ++ map_of (to_batch (drop c ds)) = put_all ds idx0"
  using put_all_append [of "take c ds" "drop c ds" idx0]
  by (simp add: map_add_to_batch)

lemma put_all_boundary_full:
  assumes "length ds = n" "n mod batchSize = 0"
  shows "put_all (take (boundary n) ds) idx0 = put_all ds idx0"
  using assms boundary_eq_iff [of n] by simp


lemma BuildIndex_success:
  assumes sc: "scan_all (rows_by_id t) = Inr fs"
  shows "BuildIndex healthy ul cfg clk t idx =
           \<lparr>br_count = length (rows t), br_err = None,
            br_index = put_all (documents ul cfg clk 0 fs) idx\<rparr>"
proof -
  let ?D = "documents ul cfg clk 0 fs"
  let ?n = "length (rows_by_id t)"
  have n: "?n = length (rows t)"
    by (simp add: rows_by_id_def)
  have lD: "length ?D = ?n"
    using scan_all_length [OF sc] by (simp add: documents_length)
  have ok: "\<forall>j < ?n div batchSize. \<not> batch_fails healthy j"
    by (simp add: healthy_def)
  have run: "BuildIndex healthy ul cfg clk t idx =
      build_loop (batch_fails healthy) False ul cfg clk []
        (put_all (take (boundary ?n) ?D) idx) (to_batch (drop (boundary ?n) ?D)) ?n (?n div batchSize)"
    using build_loop_prefix [OF sc ok, of False ul cfg clk "[]" idx]
    by (simp add: BuildIndex_def yielded_rows_def healthy_def)
  have nf: "\<not> batch_fails healthy (?n div batchSize)"
    by (simp add: healthy_def)
  show ?thesis
  proof (cases "?n mod batchSize = 0")
    case True
    then show ?thesis
      using pending_empty_iff [OF lD] put_all_boundary_full [OF lD True, of idx] n
      by (simp add: run build_finish_def)
  next
    case False
    then show ?thesis
      using pending_empty_iff [OF lD] flush_pending [of "boundary ?n" ?D idx] n nf
      by (simp add: run build_finish_def)
  qed
qed

lemma digit_char_inj: "d < 10 \<Longrightarrow> e < 10 \<Longrightarrow> digit_char d = digit_char e \<Longrightarrow> d = e"
proof -
  assume a: "d < 10" "e < 10" "digit_char d = digit_char e"
  have dist: "distinct ''0123456789''"
    by simp
  have "''0123456789'' ! d = ''0123456789'' ! e"
    using a(3) by (simp add: digit_char_def)
  then show "d = e"
    using nth_eq_iff_index_eq [OF dist, of d e] a(1,2) by simp
qed

lemma digit_char_not_minus: "d < 10 \<Longrightarrow> digit_char d \<noteq> CHR ''-''"
proof -
  assume "d < 10"
  then have "''0123456789'' ! d \<in> set ''0123456789''"
    by (intro nth_mem) simp
  then show ?thesis
    unfolding digit_char_def by auto
qed

lemma dec_nat_small: "n < 10 \<Longrightarrow> dec_nat n = [digit_char n]"
  by (subst dec_nat.simps) simp

lemma dec_nat_big: "\<not> n < 10 \<Longrightarrow> dec_nat n = dec_nat (n div 10) @ [digit_char (n mod 10)]"
  by (subst dec_nat.simps) simp

lemma dec_nat_hd_not_minus: "hd (dec_nat n) \<noteq> CHR ''-''"
proof (induction n rule: dec_nat.induct)
  case (1 n)
  show ?case
  proof (cases "n < 10")
    case True
    then show ?thesis
      by (simp add: dec_nat_small digit_char_not_minus)
  next
    case False
    then show ?thesis
      using 1 dec_nat_nonempty [of "n div 10"] by (simp add: dec_nat_big)
  qed
qed

lemma dec_nat_length_big: "\<not> n < 10 \<Longrightarrow> length (dec_nat n) \<ge> 2"
proof -
  assume a: "\<not> n < 10"
  obtain x xs where "dec_nat (n div 10) = x # xs"
    using dec_nat_nonempty [of "n div 10"] by (cases "dec_nat (n div 10)") auto
  then show ?thesis
    unfolding dec_nat_big [OF a] by simp
qed

lemma dec_nat_inj: "dec_nat n = dec_nat m \<Longrightarrow> n = m"
proof (induction n arbitrary: m rule: dec_nat.induct)
  case (1 n)
  show ?case
  proof (cases "n < 10")
    case n: True
    show ?thesis
    proof (cases "m < 10")
      case True
      have "[digit_char n] = [digit_char m]"
        using "1.prems" unfolding dec_nat_small [OF n] dec_nat_small [OF True] .
      then show ?thesis
        using digit_char_inj [OF n True] by simp
    next
      case False
      have "length (dec_nat n) = 1"
        unfolding dec_nat_small [OF n] by simp
      then show ?thesis
        using dec_nat_length_big [OF False] "1.prems" by simp
    qed
  next
    case n: False
    show ?thesis
    proof (cases "m < 10")
      case True
      have "length (dec_nat m) = 1"
        unfolding dec_nat_small [OF True] by simp
      then show ?thesis
        using dec_nat_length_big [OF n] "1.prems" by simp
    next
      case False
      have "dec_nat (n div 10) @ [digit_char (n mod 10)] = dec_nat (m div 10) @ [digit_char (m mod 10)]"
        using "1.prems" unfolding dec_nat_big [OF n] dec_nat_big [OF False] .
      then have eq: "dec_nat (n div 10) = dec_nat (m div 10)" "digit_char (n mod 10) = digit_char (m mod 10)"
        by simp_all
      have d: "n div 10 = m div 10"
        using "1.IH" [OF n eq(1)] .
      have r: "n mod 10 = m mod 10"
        using digit_char_inj [OF _ _ eq(2)] by simp
      have "n = 10 * (n div 10) + n mod 10"
        by simp
      also have "\<dots> = 10 * (m div 10) + m mod 10"
        unfolding d r ..
      also have "\<dots> = m"
        by simp
      finally show ?thesis .
    qed
  qed
qed

lemma FormatInt_inj: "FormatInt i = FormatInt j \<Longrightarrow> i = j"
proof -
  assume eq: "FormatInt i = FormatInt j"
  consider (nn) "i < 0" "j < 0" | (np) "i < 0" "\<not> j < 0" | (pn) "\<not> i < 0" "j < 0"
    | (pp) "\<not> i < 0" "\<not> j < 0"
    by blast
  then show "i = j"
  proof cases
    case nn
    then have "nat (- i) = nat (- j)"
      using eq dec_nat_inj by (simp add: FormatInt_def)
    then show ?thesis using nn by simp
  next
    case np
    then have "dec_nat (nat j) = CHR ''-'' # dec_nat (nat (- i))"
      using eq by (simp add: FormatInt_def)
    then have "hd (dec_nat (nat j)) = CHR ''-''"
      by simp
    then show ?thesis
      using dec_nat_hd_not_minus by blast
  next
    case pn
    then have "dec_nat (nat i) = CHR ''-'' # dec_nat (nat (- j))"
      using eq by (simp add: FormatInt_def)
    then have "hd (dec_nat (nat i)) = CHR ''-''"
      by simp
    then show ?thesis
      using dec_nat_hd_not_minus by blast
  next
    case pp
    then have "nat i = nat j"
      using eq dec_nat_inj by (simp add: FormatInt_def)
    then show ?thesis using pp by simp
  qed
qed

lemma document_ids:
  assumes sc: "scan_all (rows_by_id t) = Inr fs"
  shows "fst ` set (documents ul cfg clk n fs) = FormatInt ` r_id ` set (rows t)"
proof -
  have "fst ` set (documents ul cfg clk n fs) = set (map fst (documents ul cfg clk n fs))"
    by simp
  also have "\<dots> = FormatInt ` set (map ID fs)"
    by (simp add: documents_keys image_image)
  also have "\<dots> = FormatInt ` set (map r_id (rows_by_id t))"
    using scan_all_IDs [OF sc] by simp
  also have "\<dots> = FormatInt ` r_id ` set (rows t)"
    by (simp add: rows_by_id_def)
  finally show ?thesis .
qed

lemma card_ids:
  assumes "distinct (map r_id rs)"
  shows "card (FormatInt ` r_id ` set rs) = length rs"
proof -
  have "inj_on FormatInt (r_id ` set rs)"
    by (rule inj_onI) (rule FormatInt_inj)
  then have "card (FormatInt ` r_id ` set rs) = card (r_id ` set rs)"
    by (rule card_image)
  also have "\<dots> = card (set (map r_id rs))"
    by simp
  also have "\<dots> = length rs"
    using distinct_card [OF assms] by simp
  finally show ?thesis .
qed

text \<open>
  Claim C1, as the code has it. When every row of the table scans, ids are unique and
  nothing fails outside the program, \<open>BuildIndex\<close> returns the number of rows and no
  error. It only writes: the index afterwards holds the ids it held before together with
  the ids of the table, so \<open>GetDocumentCount\<close> is the number of rows exactly when every
  id indexed before is still in the table; a document whose id is not in the table stays
  as it was. For an empty table it returns 0 and leaves the index unchanged.
\<close>

theorem BuildIndex_rebuild:
  assumes sc: "scan_all (rows_by_id t) = Inr fs"
    and di: "distinct (map r_id (rows t))"
    and fin: "finite (dom idx)"
  shows "br_count (BuildIndex healthy ul cfg clk t idx) = length (rows t) \<and>
         br_err (BuildIndex healthy ul cfg clk t idx) = None \<and>
         GetDocumentCount (br_index (BuildIndex healthy ul cfg clk t idx)) =
           card (dom idx \<union> FormatInt ` r_id ` set (rows t)) \<and>
         (dom idx \<subseteq> FormatInt ` r_id ` set (rows t) \<longrightarrow>
            GetDocumentCount (br_index (BuildIndex healthy ul cfg clk t idx)) = length (rows t)) \<and>
         (\<forall>k. k \<notin> FormatInt ` r_id ` set (rows t) \<longrightarrow>
            br_index (BuildIndex healthy ul cfg clk t idx) k = idx k) \<and>
         (rows t = [] \<longrightarrow> br_index (BuildIndex healthy ul cfg clk t idx) = idx)"
proof -
  let ?D = "documents ul cfg clk 0 fs"
  let ?ids = "FormatInt ` r_id ` set (rows t)"
  have res: "BuildIndex healthy ul cfg clk t idx =
           \<lparr>br_count = length (rows t), br_err = None, br_index = put_all ?D idx\<rparr>"
    by (rule BuildIndex_success [OF sc])
  have keys: "fst ` set ?D = ?ids"
    by (rule document_ids [OF sc])
  have cnt: "GetDocumentCount (put_all ?D idx) = card (dom idx \<union> ?ids)"
    by (simp add: GetDocumentCount_def dom_put_all keys)
  have sub: "dom idx \<subseteq> ?ids \<longrightarrow> GetDocumentCount (put_all ?D idx) = length (rows t)"
  proof
    assume "dom idx \<subseteq> ?ids"
    then have "dom idx \<union> ?ids = ?ids"
      by blast
    then show "GetDocumentCount (put_all ?D idx) = length (rows t)"
      using cnt card_ids [OF di] by simp
  qed
  have stale: "\<forall>k. k \<notin> ?ids \<longrightarrow> put_all ?D idx k = idx k"
    using put_all_other [of _ ?D idx] keys by simp
  have none: "rows t = [] \<longrightarrow> put_all ?D idx = idx"
  proof
    assume "rows t = []"
    then have "fs = []"
      using scan_all_length [OF sc] by (simp add: rows_by_id_def)
    then show "put_all ?D idx = idx"
      by (simp add: put_all_Nil)
  qed
  show ?thesis
    using cnt sub stale none by (simp add: res)
qed

lemma scan_example_row1: "scan_row example_row1 = Inr example_file1"
  by (simp add: scan_row_def example_row1_def example_file1_def)

lemma scan_example_row2: "scan_row example_row2 = Inr example_file2"
  by (simp add: scan_row_def example_row2_def example_file2_def)


lemma example_ids: "r_id example_row1 = 1" "r_id example_row2 = 2" "r_id example_row3 = 3"
  by (simp_all add: example_row1_def example_row2_def example_row3_def inserted_row_def)

lemma FormatInt_examples: "FormatInt 1 = ''1''" "FormatInt 2 = ''2''" "FormatInt 3 = ''3''"
  by (simp_all add: FormatInt_def dec_nat.simps digit_char_def)

theorem BuildIndex_rebuild_witness:
  "br_count (BuildIndex healthy (\<lambda>s. s) example_cfg (\<lambda>n. 0)
      \<lparr>rows = [example_row2, example_row1], sqlite_sequence = 2\<rparr> Map.empty) = 2 \<and>
   br_err (BuildIndex healthy (\<lambda>s. s) example_cfg (\<lambda>n. 0)
      \<lparr>rows = [example_row2, example_row1], sqlite_sequence = 2\<rparr> Map.empty) = None \<and>
   GetDocumentCount (br_index (BuildIndex healthy (\<lambda>s. s) example_cfg (\<lambda>n. 0)
      \<lparr>rows = [example_row2, example_row1], sqlite_sequence = 2\<rparr> Map.empty)) = 2"
proof -
  let ?t = "\<lparr>rows = [example_row2, example_row1], sqlite_sequence = 2\<rparr>"
  have sc: "scan_all (rows_by_id ?t) = Inr [example_file1, example_file2]"
    by (simp add: rows_by_id_def example_ids scan_example_row1 scan_example_row2)
  have di: "distinct (map r_id (rows ?t))"
    by (simp add: example_ids)
  have fin: "finite (dom (Map.empty :: index))"
    by simp
  show ?thesis
    using BuildIndex_rebuild [OF sc di fin, of "\<lambda>s. s" example_cfg "\<lambda>n. 0"] by simp
qed

text \<open>
  The claim as stated fails: with document 99 indexed earlier and an empty table, the
  rebuild returns 0 without error and the index still counts one document.
\<close>

theorem BuildIndex_stale_document_counterexample:
  "br_count (BuildIndex healthy (\<lambda>s. s) example_cfg (\<lambda>n. 0) empty_table
      [''99'' \<mapsto> example_old_doc]) = 0 \<and>
   br_err (BuildIndex healthy (\<lambda>s. s) example_cfg (\<lambda>n. 0) empty_table
      [''99'' \<mapsto> example_old_doc]) = None \<and>
   GetDocumentCount (br_index (BuildIndex healthy (\<lambda>s. s) example_cfg (\<lambda>n. 0) empty_table
      [''99'' \<mapsto> example_old_doc])) = 1"
  by (simp add: BuildIndex_def healthy_def yielded_rows_def rows_by_id_def empty_table_def
      batch_Size_def build_finish_def GetDocumentCount_def)







lemma ext_scan_empty_iff:
  "ext_scan xs suf = [] \<longleftrightarrow> CHR ''.'' \<notin> set (takeWhile (\<lambda>c. \<not> IsPathSeparator c) xs)"
  by (induction xs arbitrary: suf) (auto simp: IsPathSeparator_def)

lemma Ext_empty_iff: "Ext p = [] \<longleftrightarrow> CHR ''.'' \<notin> set (last_element p)"
  by (simp add: Ext_def last_element_def ext_scan_empty_iff)

lemma ToLower_Nil: "ToLower ul [] = []"
  by (simp add: ToLower_def)

lemma ToLower_ascii: "list_all is_ascii s \<Longrightarrow> ToLower ul s = map ascii_lower s"
  by (simp add: ToLower_def)

text \<open>
  Claim C6, as the code has it. \<open>IndexFile\<close> refuses \<open>nil\<close>; for a file it writes or
  replaces the document under the decimal string of the file's id. The document's name
  is the base name of the path; its extension is the lower-cased \<open>filepath.Ext\<close> of the
  path whether or not the record is a directory: empty when the last path element has no
  dot, and otherwise (for an ASCII extension) the non-empty text from the last dot on,
  lower-cased. The summary is set if and only if summaries are indexed and the file's
  summary is not empty, and is then the file's summary.
\<close>

theorem IndexFile_document:
  "IndexFile ul cfg now None idx = Inl NilFile \<and>
   (\<exists>d. IndexFile ul cfg now (Some f) idx = Inr (idx(FormatInt (ID f) \<mapsto> d)) \<and>
     doc_ID d = FormatInt (ID f) \<and>
     doc_Name d = Base (Path f) \<and>
     doc_Extension d = ToLower ul (Ext (Path f)) \<and>
     (CHR ''.'' \<notin> set (last_element (Path f)) \<longrightarrow> doc_Extension d = []) \<and>
     (CHR ''.'' \<in> set (last_element (Path f)) \<and> list_all is_ascii (Ext (Path f)) \<longrightarrow>
        doc_Extension d = map ascii_lower (Ext (Path f)) \<and> doc_Extension d \<noteq> []) \<and>
     doc_Summary d = (if IndexSummaries cfg \<and> Summary f \<noteq> [] then Summary f else []) \<and>
     (doc_Summary d \<noteq> [] \<longleftrightarrow> IndexSummaries cfg \<and> Summary f \<noteq> []) \<and>
     doc_Path d = Path f \<and> doc_RelativePath d = RelativePath f \<and> doc_Size d = Size f \<and>
     doc_ModTime d = ModTime f \<and> doc_IsDir d = IsDir f \<and> doc_ContentType d = ContentType f \<and>
     doc_UploadedURL d = UploadedURL f \<and> doc_UpdatedAt d = now)"
proof -
  let ?d = "file_document ul cfg now f"
  have run: "IndexFile ul cfg now (Some f) idx = Inr (idx(FormatInt (ID f) \<mapsto> ?d))"
    by (simp add: IndexFile_def index_Index_def doc_ID_file_document FormatInt_nonempty Let_def)
  have ext: "doc_Extension ?d = ToLower ul (Ext (Path f))"
    by (simp add: file_document_def Let_def)
  have e1: "CHR ''.'' \<notin> set (last_element (Path f)) \<longrightarrow> doc_Extension ?d = []"
    using Ext_empty_iff [of "Path f"] by (auto simp: ext ToLower_Nil)
  have e2: "CHR ''.'' \<in> set (last_element (Path f)) \<and> list_all is_ascii (Ext (Path f)) \<longrightarrow>
        doc_Extension ?d = map ascii_lower (Ext (Path f)) \<and> doc_Extension ?d \<noteq> []"
    using Ext_empty_iff [of "Path f"] by (auto simp: ext ToLower_ascii)
  have rest: "doc_ID ?d = FormatInt (ID f) \<and> doc_Name ?d = Base (Path f) \<and>
     doc_Summary ?d = (if IndexSummaries cfg \<and> Summary f \<noteq> [] then Summary f else []) \<and>
     (doc_Summary ?d \<noteq> [] \<longleftrightarrow> IndexSummaries cfg \<and> Summary f \<noteq> []) \<and>
     doc_Path ?d = Path f \<and> doc_RelativePath ?d = RelativePath f \<and> doc_Size ?d = Size f \<and>
     doc_ModTime ?d = ModTime f \<and> doc_IsDir ?d = IsDir f \<and> doc_ContentType ?d = ContentType f \<and>
     doc_UploadedURL ?d = UploadedURL f \<and> doc_UpdatedAt ?d = now"
    by (simp add: file_document_def Let_def)
  have nil: "IndexFile ul cfg now None idx = Inl NilFile"
    by (simp add: IndexFile_def)
  show ?thesis
    by (intro conjI exI [of _ ?d]) (use nil run ext e1 e2 rest in blast)+
qed

theorem IndexFile_document_witness:
  "IndexFile (\<lambda>s. s) example_cfg 20
     (Some (example_file1\<lparr>Path := ''/test/path/File.TXT''\<rparr>)) Map.empty
   = Inr [''1'' \<mapsto>
       \<lparr>doc_ID = ''1'', doc_Path = ''/test/path/File.TXT'', doc_RelativePath = ''path/file.txt'',
        doc_Name = ''File.TXT'', doc_Extension = ''.txt'', doc_Size = 1024, doc_ModTime = 10,
        doc_IsDir = False, doc_ContentType = ''text/plain'', doc_Summary = ''This is a test file'',
        doc_UploadedURL = ''https://example.com/file.txt'', doc_UpdatedAt = 20\<rparr>]"
  using IndexFile_document [of "\<lambda>s. s" example_cfg 20 Map.empty
      "example_file1\<lparr>Path := ''/test/path/File.TXT''\<rparr>"]
  by (simp add: IndexFile_def index_Index_def file_document_def example_file1_def example_cfg_def
      FormatInt_examples Base_def last_element_def IsPathSeparator_def Ext_def ToLower_def
      is_ascii_def ascii_lower_def Let_def)

text \<open>
  The claim as stated fails: the directory \<open>/test/photos.2024\<close> is indexed with the
  extension \<open>.2024\<close>, not with an empty one.
\<close>

theorem IndexFile_directory_extension_counterexample:
  "IndexFile (\<lambda>s. s) example_cfg 20
     (Some \<lparr>ID = 3, Path = ''/test/photos.2024'', RelativePath = ''photos.2024'', Size = 96,
            ModTime = 10, IsDir = True, ContentType = [], SHA256 = [], Processed = False,
            UploadedURL = [], UploadTime = None, Summary = []\<rparr>) Map.empty
   = Inr [''3'' \<mapsto>
       \<lparr>doc_ID = ''3'', doc_Path = ''/test/photos.2024'', doc_RelativePath = ''photos.2024'',
        doc_Name = ''photos.2024'', doc_Extension = ''.2024'', doc_Size = 96, doc_ModTime = 10,
        doc_IsDir = True, doc_ContentType = [], doc_Summary = [],
        doc_UploadedURL = [], doc_UpdatedAt = 20\<rparr>]"
  by (simp add: IndexFile_def index_Index_def file_document_def example_cfg_def
      FormatInt_examples Base_def last_element_def IsPathSeparator_def Ext_def ToLower_def
      is_ascii_def ascii_lower_def Let_def)












text \<open>
  Claim C8. \<open>RemoveFile\<close> returns no error whether or not the id is indexed: it leaves
  the index without a document of that id, a second call changes nothing and returns no
  error either, and for an id that was not indexed the index is unchanged. Afterwards the
  removed id is a hit of no request, the hits among the other ids are as before, and a
  request whose only possible hit was the removed document has no hit at all.
\<close>

theorem RemoveFile_idempotent:
  "RemoveFile fileID idx = Inr (idx(FormatInt fileID := None)) \<and>
   RemoveFile fileID (idx(FormatInt fileID := None)) = Inr (idx(FormatInt fileID := None)) \<and>
   (idx (FormatInt fileID) = None \<longrightarrow> RemoveFile fileID idx = Inr idx) \<and>
   \<not> is_hit eng request (idx(FormatInt fileID := None)) (FormatInt fileID) \<and>
   (\<forall>k. k \<noteq> FormatInt fileID \<longrightarrow>
      is_hit eng request (idx(FormatInt fileID := None)) k = is_hit eng request idx k) \<and>
   ((\<forall>k. is_hit eng request idx k \<longrightarrow> k = FormatInt fileID) \<longrightarrow>
      (\<forall>k. \<not> is_hit eng request (idx(FormatInt fileID := None)) k))"
proof -
  let ?k = "FormatInt fileID"
  have r1: "RemoveFile fileID idx = Inr (idx(?k := None))"
    by (simp add: RemoveFile_def index_Delete_def FormatInt_nonempty)
  have r2: "RemoveFile fileID (idx(?k := None)) = Inr (idx(?k := None))"
    by (simp add: RemoveFile_def index_Delete_def FormatInt_nonempty)
  have r3: "idx ?k = None \<longrightarrow> RemoveFile fileID idx = Inr idx"
  proof
    assume "idx ?k = None"
    then have "idx(?k := None) = idx"
      by (rule fun_upd_idem)
    then show "RemoveFile fileID idx = Inr idx"
      using r1 by simp
  qed
  have gone: "\<not> is_hit eng request (idx(?k := None)) ?k"
    by (simp add: is_hit_def)
  have others: "\<forall>k. k \<noteq> ?k \<longrightarrow> is_hit eng request (idx(?k := None)) k = is_hit eng request idx k"
    by (simp add: is_hit_def)
  have unique: "(\<forall>k. is_hit eng request idx k \<longrightarrow> k = ?k) \<longrightarrow>
      (\<forall>k. \<not> is_hit eng request (idx(?k := None)) k)"
  proof (intro impI allI)
    fix k
    assume only: "\<forall>k. is_hit eng request idx k \<longrightarrow> k = ?k"
    show "\<not> is_hit eng request (idx(?k := None)) k"
    proof (cases "k = ?k")
      case True
      then show ?thesis using gone by simp
    next
      case False
      then have "is_hit eng request (idx(?k := None)) k = is_hit eng request idx k"
        using others by simp
      moreover have "\<not> is_hit eng request idx k"
        using only False by blast
      ultimately show ?thesis by simp
    qed
  qed
  show ?thesis
    by (rule conjI [OF r1 conjI [OF r2 conjI [OF r3 conjI [OF gone conjI [OF others unique]]]]])
qed

lemma words_summary1: "words ''This is a test file'' [] = [''this'', ''is'', ''a'', ''test'', ''file'']"
  by code_simp

lemma words_summary2:
  "words ''This is another test file with some content'' [] =
     [''this'', ''is'', ''another'', ''test'', ''file'', ''with'', ''some'', ''content'']"
  by code_simp

lemma words_another: "words ''another'' [] = [''another'']"
  by code_simp

theorem RemoveFile_idempotent_witness:
  "RemoveFile 2 [''1'' \<mapsto> file_document (\<lambda>s. s) example_cfg 0 example_file1,
                 ''2'' \<mapsto> file_document (\<lambda>s. s) example_cfg 0 example_file2]
     = Inr ([''1'' \<mapsto> file_document (\<lambda>s. s) example_cfg 0 example_file1,
             ''2'' \<mapsto> file_document (\<lambda>s. s) example_cfg 0 example_file2](''2'' := None)) \<and>
   RemoveFile 2 ([''1'' \<mapsto> file_document (\<lambda>s. s) example_cfg 0 example_file1,
                  ''2'' \<mapsto> file_document (\<lambda>s. s) example_cfg 0 example_file2](''2'' := None))
     = Inr ([''1'' \<mapsto> file_document (\<lambda>s. s) example_cfg 0 example_file1,
             ''2'' \<mapsto> file_document (\<lambda>s. s) example_cfg 0 example_file2](''2'' := None)) \<and>
   is_hit example_engine
     \<lparr>Query = ''another'', Limit = 10, Offset = 0, SortBy = [], SortDesc = False,
      FieldName = ''Summary''\<rparr>
     [''1'' \<mapsto> file_document (\<lambda>s. s) example_cfg 0 example_file1,
      ''2'' \<mapsto> file_document (\<lambda>s. s) example_cfg 0 example_file2] ''2'' \<and>
   (\<forall>k. \<not> is_hit example_engine
     \<lparr>Query = ''another'', Limit = 10, Offset = 0, SortBy = [], SortDesc = False,
      FieldName = ''Summary''\<rparr>
     ([''1'' \<mapsto> file_document (\<lambda>s. s) example_cfg 0 example_file1,
       ''2'' \<mapsto> file_document (\<lambda>s. s) example_cfg 0 example_file2](''2'' := None)) k)"
proof -
  let ?d1 = "file_document (\<lambda>s. s) example_cfg 0 example_file1"
  let ?d2 = "file_document (\<lambda>s. s) example_cfg 0 example_file2"
  let ?idx = "[''1'' \<mapsto> ?d1, ''2'' \<mapsto> ?d2]"
  let ?r = "\<lparr>Query = ''another'', Limit = 10, Offset = 0, SortBy = [], SortDesc = False,
      FieldName = ''Summary''\<rparr>"
  have q: "search_query ?r = MatchQuery ''another'' ''Summary''"
    by (simp add: search_query_def)
  have s1: "field_terms example_engine k ?d1 ''Summary'' = [''this'', ''is'', ''a'', ''test'', ''file'']"
    for k
    by (simp add: field_terms_def struct_field_terms_def file_document_def example_cfg_def
        example_file1_def example_engine_def words_summary1 Let_def del: words.simps)
  have s2: "field_terms example_engine k ?d2 ''Summary''
            = [''this'', ''is'', ''another'', ''test'', ''file'', ''with'', ''some'', ''content'']"
    for k
    by (simp add: field_terms_def struct_field_terms_def file_document_def example_cfg_def
        example_file2_def example_engine_def words_summary2 Let_def del: words.simps)
  have an: "query_terms example_engine ''Summary'' ''another'' = [''another'']"
    by (simp add: example_engine_def keyword_or_words_def words_another del: words.simps)
  have h1: "\<not> query_hit example_engine (MatchQuery ''another'' ''Summary'') k ?d1" for k
    by (simp add: s1 an shares_def)
  have h2: "query_hit example_engine (MatchQuery ''another'' ''Summary'') k ?d2" for k
    by (simp add: s2 an shares_def)
  have hit2: "is_hit example_engine ?r ?idx ''2''"
    unfolding is_hit_def q using h2 by simp
  have only: "\<forall>k. is_hit example_engine ?r ?idx k \<longrightarrow> k = FormatInt 2"
  proof (intro allI impI)
    fix k
    assume "is_hit example_engine ?r ?idx k"
    then show "k = FormatInt 2"
      unfolding is_hit_def q using h1 by (cases "k = ''2''"; cases "k = ''1''") (simp_all add: FormatInt_examples)
  qed
  have "(\<forall>k. is_hit example_engine ?r ?idx k \<longrightarrow> k = FormatInt 2) \<longrightarrow>
      (\<forall>k. \<not> is_hit example_engine ?r (?idx(FormatInt 2 := None)) k)"
    using RemoveFile_idempotent [of 2 ?idx example_engine ?r] by (elim conjE)
  then have "\<forall>k. \<not> is_hit example_engine ?r (?idx(FormatInt 2 := None)) k"
    using only by (rule mp)
  then have none: "\<forall>k. \<not> is_hit example_engine ?r (?idx(''2'' := None)) k"
    unfolding FormatInt_examples .
  have "RemoveFile 2 ?idx = Inr (?idx(FormatInt 2 := None))"
    using RemoveFile_idempotent [of 2 ?idx example_engine ?r] by (elim conjE)
  then have rm1: "RemoveFile 2 ?idx = Inr (?idx(''2'' := None))"
    unfolding FormatInt_examples .
  have "RemoveFile 2 (?idx(FormatInt 2 := None)) = Inr (?idx(FormatInt 2 := None))"
    using RemoveFile_idempotent [of 2 ?idx example_engine ?r] by (elim conjE)
  then have rm2: "RemoveFile 2 (?idx(''2'' := None)) = Inr (?idx(''2'' := None))"
    unfolding FormatInt_examples .
  show ?thesis
    by (rule conjI [OF rm1 conjI [OF rm2 conjI [OF hit2 none]]])
qed

section \<open>Properties of the directory listing\<close>



























text \<open>
  What reading the text as SQLite does means where the bytes are no well-formed UTF-8 or
  hold a NUL byte: the byte \<open>0xE9\<close> before \<open>/\<close> and the byte \<open>0xE8\<close> before \<open>/\<close> are both read
  as the character U+FFFD, so the directory \<open>/caf\<close>\<open>0xE9\<close> selects the path
  \<open>/caf\<close>\<open>0xE8\<close>\<open>/x.txt\<close>; a path is compared up to its first NUL byte only; and a
  directory string with a NUL byte gives a pattern that ends before the NUL byte, without
  wildcard, which selects the path equal to it.
\<close>

lemma like_malformed_example:
  "sql_LIKE (directoryPattern (''/caf'' @ [CHR 0xE9])) (''/caf'' @ [CHR 0xE8] @ ''/x.txt'')"
  by code_simp

lemma like_nul_example: "sql_LIKE (directoryPattern (''/a'' @ [CHR 0x00] @ ''b'')) ''/a''"
  by code_simp

lemma like_nul_path_example: "sql_LIKE (directoryPattern ''/a'') (''/a/'' @ [CHR 0x00] @ ''b'')"
  by code_simp

lemma not_like_nul_path_example: "\<not> sql_LIKE (directoryPattern ''/a'') (''/a'' @ [CHR 0x00] @ ''/b'')"
  by code_simp

lemma malformed_example:
  "GetFilesInDirectory
     \<lparr>rows = [example_row1\<lparr>r_path := ''/caf'' @ [CHR 0xE8] @ ''/x.txt''\<rparr>], sqlite_sequence = 1\<rparr>
     (''/caf'' @ [CHR 0xE9])
   = Inr [example_file1\<lparr>Path := ''/caf'' @ [CHR 0xE8] @ ''/x.txt''\<rparr>]"
  using like_malformed_example
  by (simp add: GetFilesInDirectory_def like_rows_def max_like_pattern_length_def
      directoryPattern_def HasSuffix_def scan_row_def example_row1_def example_file1_def Let_def)

lemma nul_example:
  "GetFilesInDirectory
     \<lparr>rows = [example_row1\<lparr>r_path := ''/a''\<rparr>], sqlite_sequence = 1\<rparr>
     (''/a'' @ [CHR 0x00] @ ''b'')
   = Inr [example_file1\<lparr>Path := ''/a''\<rparr>]"
  using like_nul_example
  by (simp add: GetFilesInDirectory_def like_rows_def max_like_pattern_length_def
      directoryPattern_def HasSuffix_def scan_row_def example_row1_def example_file1_def Let_def)








end
